theory Spec2Isabelle
  imports Complex_Main
begin

section \<open>Strings\<close>

text \<open>
  A JavaScript string is a sequence of UTF-16 code units. The model keeps the code
  units as integers: \<open>asc\<close> embeds an ASCII literal, the Korean text of
  \<^verbatim>\<open>src/index.ts\<close> is written as the list of its code units (one unit per Hangul
  syllable, a surrogate pair for the emoji of the greeting).
\<close>

type_synonym js_string = "int list"

definition asc :: "string \<Rightarrow> js_string" where
  "asc s = map of_char s"

text \<open>
  Decimal digits of a non-negative integer, and \<open>String(i)\<close> for an integer \<open>i\<close>
  that JavaScript prints without an exponent.
\<close>

function show_nat :: "int \<Rightarrow> js_string" where
  "show_nat n = (if n < 10 then [48 + n] else show_nat (n div 10) @ [48 + n mod 10])"
  by pat_completeness auto
termination by (relation "measure nat") auto

declare show_nat.simps [simp del]

definition show_int :: "int \<Rightarrow> js_string" where
  "show_int i = (if i < 0 then asc ''-'' @ show_nat (- i) else show_nat i)"

definition starts_with :: "js_string \<Rightarrow> js_string \<Rightarrow> bool" where
  "starts_with p s \<longleftrightarrow> take (length p) s = p"

section \<open>Numbers\<close>

text \<open>
  A JavaScript number is an IEEE-754 binary64 value: a finite value (kept as the
  rational it denotes, \<open>Fin 0\<close> being \<open>+0\<close>), \<open>-0\<close>, the two infinities or NaN.
  Arithmetic computes the exact rational result and rounds it to the nearest binary64
  value, ties to even (\<open>round_double\<close>): 53 significant bits, the least exponent
  \<open>-1022\<close> (below it the spacing stays \<open>2^-1074\<close>), overflow to infinity from
  \<open>2^1024\<close> on.
\<close>

datatype number = Fin rat | NegZero | PosInf | NegInf | NaN

function bit_length :: "int \<Rightarrow> int" where
  "bit_length n = (if n \<le> 0 then 0 else 1 + bit_length (n div 2))"
  by pat_completeness auto
termination by (relation "measure nat") auto

declare bit_length.simps [simp del]

function decimal_length :: "int \<Rightarrow> int" where
  "decimal_length n = (if n \<le> 0 then 0 else 1 + decimal_length (n div 10))"
  by pat_completeness auto
termination by (relation "measure nat") auto

declare decimal_length.simps [simp del]

definition pow2 :: "int \<Rightarrow> rat" where
  "pow2 e = (if 0 \<le> e then of_int (2 ^ nat e) else 1 / of_int (2 ^ nat (- e)))"

definition pow10 :: "int \<Rightarrow> rat" where
  "pow10 e = (if 0 \<le> e then of_int (10 ^ nat e) else 1 / of_int (10 ^ nat (- e)))"

text \<open>
  \<open>floor_log2 r\<close> is the integer \<open>e\<close> with \<open>2^e \<le> r < 2^(e+1)\<close> for a positive
  \<open>r = p / q\<close>: the difference \<open>d\<close> of the bit lengths of \<open>p\<close> and \<open>q\<close> is
  \<open>e\<close> or \<open>e + 1\<close>.
\<close>

definition nearest_log :: "(int \<Rightarrow> rat) \<Rightarrow> rat \<Rightarrow> int \<Rightarrow> int" where
  "nearest_log pw r d = (if pw d \<le> r then d else d - 1)"

definition floor_log2 :: "rat \<Rightarrow> int" where
  "floor_log2 r =
     nearest_log pow2 r (bit_length (fst (quotient_of r)) - bit_length (snd (quotient_of r)))"

definition floor_log10 :: "rat \<Rightarrow> int" where
  "floor_log10 r =
     nearest_log pow10 r
       (decimal_length (fst (quotient_of r)) - decimal_length (snd (quotient_of r)))"

definition half_even :: "rat \<Rightarrow> int \<Rightarrow> int" where
  "half_even q f =
     (if q - of_int f < 1 / 2 then f
      else if 1 / 2 < q - of_int f then f + 1
      else if even f then f else f + 1)"

definition round_half_even :: "rat \<Rightarrow> int" where
  "round_half_even q = half_even q \<lfloor>q\<rfloor>"

definition signed_result :: "rat \<Rightarrow> rat \<Rightarrow> number" where
  "signed_result r v =
     (if v = 0 then (if 0 < r then Fin 0 else NegZero)
      else if 1024 \<le> floor_log2 v then (if 0 < r then PosInf else NegInf)
      else Fin (if 0 < r then v else - v))"

definition round_to_ulp :: "rat \<Rightarrow> rat \<Rightarrow> number" where
  "round_to_ulp r u = signed_result r (of_int (round_half_even (\<bar>r\<bar> / u)) * u)"

definition round_double :: "rat \<Rightarrow> number" where
  "round_double r =
     (if r = 0 then Fin 0
      else round_to_ulp r (pow2 (max (floor_log2 \<bar>r\<bar>) (- 1022) - 52)))"

subsection \<open>The arithmetic operators\<close>

definition is_zero :: "number \<Rightarrow> bool" where
  "is_zero x \<longleftrightarrow> x = Fin 0 \<or> x = NegZero"

definition is_infinite :: "number \<Rightarrow> bool" where
  "is_infinite x \<longleftrightarrow> x = PosInf \<or> x = NegInf"

fun is_negative :: "number \<Rightarrow> bool" where
  "is_negative (Fin r) = (r < 0)"
| "is_negative NegZero = True"
| "is_negative NegInf = True"
| "is_negative PosInf = False"
| "is_negative NaN = False"

definition signed_zero :: "bool \<Rightarrow> number" where
  "signed_zero neg = (if neg then NegZero else Fin 0)"

definition signed_inf :: "bool \<Rightarrow> number" where
  "signed_inf neg = (if neg then NegInf else PosInf)"

fun js_neg :: "number \<Rightarrow> number" where
  "js_neg (Fin r) = (if r = 0 then NegZero else Fin (- r))"
| "js_neg NegZero = Fin 0"
| "js_neg PosInf = NegInf"
| "js_neg NegInf = PosInf"
| "js_neg NaN = NaN"

fun js_add :: "number \<Rightarrow> number \<Rightarrow> number" where
  "js_add NaN y = NaN"
| "js_add x NaN = NaN"
| "js_add PosInf NegInf = NaN"
| "js_add NegInf PosInf = NaN"
| "js_add PosInf y = PosInf"
| "js_add x PosInf = PosInf"
| "js_add NegInf y = NegInf"
| "js_add x NegInf = NegInf"
| "js_add NegZero NegZero = NegZero"
| "js_add NegZero (Fin b) = Fin b"
| "js_add (Fin a) NegZero = Fin a"
| "js_add (Fin a) (Fin b) = round_double (a + b)"

definition js_sub :: "number \<Rightarrow> number \<Rightarrow> number" where
  "js_sub x y = js_add x (js_neg y)"

fun js_mul :: "number \<Rightarrow> number \<Rightarrow> number" where
  "js_mul NaN y = NaN"
| "js_mul x NaN = NaN"
| "js_mul (Fin a) (Fin b) =
     (if a = 0 \<or> b = 0 then signed_zero ((a < 0) \<noteq> (b < 0)) else round_double (a * b))"
| "js_mul x y =
     (if is_infinite x \<or> is_infinite y
      then (if is_zero x \<or> is_zero y then NaN
            else signed_inf (is_negative x \<noteq> is_negative y))
      else signed_zero (is_negative x \<noteq> is_negative y))"

fun js_div :: "number \<Rightarrow> number \<Rightarrow> number" where
  "js_div NaN y = NaN"
| "js_div x NaN = NaN"
| "js_div (Fin a) (Fin b) =
     (if b = 0 then (if a = 0 then NaN else signed_inf (a < 0))
      else if a = 0 then signed_zero (b < 0)
      else round_double (a / b))"
| "js_div x y =
     (if is_infinite x
      then (if is_infinite y then NaN else signed_inf (is_negative x \<noteq> is_negative y))
      else if is_infinite y then signed_zero (is_negative x \<noteq> is_negative y)
      else if is_zero y
      then (if is_zero x then NaN else signed_inf (is_negative x \<noteq> is_negative y))
      else signed_zero (is_negative x \<noteq> is_negative y))"

subsection \<open>Number to string\<close>

text \<open>
  \<open>Number::toString\<close> of ECMAScript, radix 10. For a positive finite \<open>x\<close> it takes
  the integers \<open>n\<close>, \<open>k\<close>, \<open>s\<close> with \<open>10^(k-1) \<le> s < 10^k\<close> such that
  \<open>s * 10^(n-k)\<close> rounds to \<open>x\<close> and \<open>k\<close> is least (at most 17 digits are ever
  needed), the \<open>s\<close> closest to \<open>x\<close> where several qualify, and lays the digits of
  \<open>s\<close> out with a decimal point or an exponent according to \<open>n\<close>.
\<close>

definition is_digits_of :: "rat \<Rightarrow> int \<Rightarrow> int \<Rightarrow> int \<Rightarrow> bool" where
  "is_digits_of x k n s \<longleftrightarrow>
     10 ^ nat (k - 1) \<le> s \<and> s < 10 ^ nat k \<and> round_double (of_int s * pow10 (n - k)) = Fin x"

definition candidates_at :: "rat \<Rightarrow> int \<Rightarrow> int \<Rightarrow> int \<Rightarrow> (int \<times> int) list" where
  "candidates_at x k n f =
     (if is_digits_of x k n f then [(n, f)] else []) @
     (if is_digits_of x k n (f + 1) then [(n, f + 1)] else [])"

definition digit_candidates :: "rat \<Rightarrow> int \<Rightarrow> int \<Rightarrow> (int \<times> int) list" where
  "digit_candidates x n0 k =
     candidates_at x k n0 \<lfloor>x / pow10 (n0 - k)\<rfloor> @
     candidates_at x k (n0 + 1) \<lfloor>x / pow10 (n0 + 1 - k)\<rfloor>"

definition distance :: "rat \<Rightarrow> int \<Rightarrow> int \<times> int \<Rightarrow> rat" where
  "distance x k c = \<bar>of_int (snd c) * pow10 (fst c - k) - x\<bar>"

fun closest :: "rat \<Rightarrow> int \<Rightarrow> (int \<times> int) list \<Rightarrow> int \<times> int \<Rightarrow> int \<times> int" where
  "closest x k [] best = best"
| "closest x k (c # cs) best =
     (if distance x k c < distance x k best \<or>
         (distance x k c = distance x k best \<and> even (snd c) \<and> odd (snd best))
      then closest x k cs c else closest x k cs best)"

fun shortest_digits :: "rat \<Rightarrow> int \<Rightarrow> int list \<Rightarrow> int \<times> int \<times> int" where
  "shortest_digits x n0 [] = (n0, 17, \<lfloor>x / pow10 (n0 - 17)\<rfloor>)"
| "shortest_digits x n0 (k # ks) =
     (case digit_candidates x n0 k of
        [] \<Rightarrow> shortest_digits x n0 ks
      | c # cs \<Rightarrow> (fst (closest x k cs c), k, snd (closest x k cs c)))"

definition zeros :: "int \<Rightarrow> js_string" where
  "zeros n = replicate (nat n) 48"

definition exponent_part :: "int \<Rightarrow> js_string" where
  "exponent_part e =
     asc ''e'' @ (if e < 0 then asc ''-'' else asc ''+'') @ show_nat \<bar>e\<bar>"

definition layout :: "int \<Rightarrow> int \<Rightarrow> js_string \<Rightarrow> js_string" where
  "layout n k ds =
     (if k \<le> n \<and> n \<le> 21 then ds @ zeros (n - k)
      else if 0 < n \<and> n \<le> 21 then take (nat n) ds @ asc ''.'' @ drop (nat n) ds
      else if - 6 < n \<and> n \<le> 0 then asc ''0.'' @ zeros (- n) @ ds
      else if k = 1 then ds @ exponent_part (n - 1)
      else take 1 ds @ asc ''.'' @ drop 1 ds @ exponent_part (n - 1))"

definition layout_digits :: "int \<times> int \<times> int \<Rightarrow> js_string" where
  "layout_digits nks = layout (fst nks) (fst (snd nks)) (show_nat (snd (snd nks)))"

definition positive_to_string :: "rat \<Rightarrow> js_string" where
  "positive_to_string x =
     layout_digits (shortest_digits x (floor_log10 x + 1)
       [1, 2, 3, 4, 5, 6, 7, 8, 9, 10, 11, 12, 13, 14, 15, 16, 17])"

fun number_to_string :: "number \<Rightarrow> js_string" where
  "number_to_string NaN = asc ''NaN''"
| "number_to_string NegZero = asc ''0''"
| "number_to_string PosInf = asc ''Infinity''"
| "number_to_string NegInf = asc ''-Infinity''"
| "number_to_string (Fin r) =
     (if r = 0 then asc ''0''
      else if r < 0 then asc ''-'' @ positive_to_string (- r)
      else positive_to_string r)"

section \<open>Tool results\<close>

text \<open>
  A tool handler returns \<^verbatim>\<open>{ content: [...], structuredContent: { content: [...] } }\<close>,
  every block being \<^verbatim>\<open>{ type: 'text', text }\<close> (\<open>Block type text\<close>). The record of the
  result extends the record of its \<open>structuredContent\<close> object, so \<open>content\<close> reads
  both.
\<close>

datatype block = Block (block_type: js_string) (block_text: js_string)

record content_object =
  content :: "block list"

record tool_result = content_object +
  structuredContent :: content_object

section \<open>The greet tool\<close>

definition greet :: "js_string \<Rightarrow> js_string \<Rightarrow> tool_result" where
  "greet name language =
     (let greeting =
        (if language = asc ''ko''
         then [0xC548, 0xB155, 0xD558, 0xC138, 0xC694, 0x2C, 0x20] @ name @ [0xB2D8, 0x21]
         else asc ''Hey there, '' @ name @ [0x21, 0x20, 0xD83D, 0xDC4B] @
              asc '' Nice to meet you!'')
      in \<lparr>content = [Block (asc ''text'') greeting],
          structuredContent = \<lparr>content = [Block (asc ''text'') greeting]\<rparr>\<rparr>)"

section \<open>The calculator tool\<close>

text \<open>
  \<open>error_prefix\<close> is the text \<^verbatim>\<open>U+C624 U+B958 ": "\<close> (``error: '') that opens every
  error message of the handlers.
\<close>

definition error_prefix :: js_string where
  "error_prefix = [0xC624, 0xB958, 0x3A, 0x20]"

definition division_by_zero_message :: js_string where
  "division_by_zero_message =
     asc ''0'' @
     [0xC73C, 0xB85C, 0x20, 0xB098, 0xB20C, 0x20, 0xC218, 0x20, 0xC5C6, 0xC2B5, 0xB2C8,
      0xB2E4, 0x2E]"

definition division_by_zero_text :: js_string where
  "division_by_zero_text = error_prefix @ division_by_zero_message"

definition unsupported_operator_text :: js_string where
  "unsupported_operator_text =
     error_prefix @
     [0xC9C0, 0xC6D0, 0xD558, 0xC9C0, 0x20, 0xC54A, 0xB294, 0x20, 0xC5F0, 0xC0B0, 0xC790,
      0xC785, 0xB2C8, 0xB2E4, 0x2E]"

text \<open>
  The \<^verbatim>\<open>switch\<close> of the handler; \<open>num2 === 0\<close> holds for \<open>+0\<close> and \<open>-0\<close>. The
  multiplication sign is U+00D7 and the division sign U+00F7.
\<close>

definition calculator_text :: "number \<Rightarrow> number \<Rightarrow> js_string \<Rightarrow> js_string" where
  "calculator_text num1 num2 operator =
     (if operator = asc ''+''
      then number_to_string num1 @ asc '' + '' @ number_to_string num2 @ asc '' = '' @
           number_to_string (js_add num1 num2)
      else if operator = asc ''-''
      then number_to_string num1 @ asc '' - '' @ number_to_string num2 @ asc '' = '' @
           number_to_string (js_sub num1 num2)
      else if operator = asc ''*''
      then number_to_string num1 @ [0x20, 0xD7, 0x20] @ number_to_string num2 @ asc '' = '' @
           number_to_string (js_mul num1 num2)
      else if operator = asc ''/''
      then (if is_zero num2 then division_by_zero_text
            else number_to_string num1 @ [0x20, 0xF7, 0x20] @ number_to_string num2 @
                 asc '' = '' @ number_to_string (js_div num1 num2))
      else unsupported_operator_text)"

definition calculator :: "number \<Rightarrow> number \<Rightarrow> js_string \<Rightarrow> tool_result" where
  "calculator num1 num2 operator =
     (let resultText = calculator_text num1 num2 operator
      in \<lparr>content = [Block (asc ''text'') resultText],
          structuredContent = \<lparr>content = [Block (asc ''text'') resultText]\<rparr>\<rparr>)"

section \<open>The time tool\<close>

subsection \<open>The two regular expressions\<close>

text \<open>
  \<open>\d\<close> of a JavaScript regular expression is an ASCII digit, and \<open>$\<close> without the
  \<open>m\<close> flag is the end of the input. \<open>timezone_schema\<close> is
  \<^verbatim>\<open>/^UTC[+-]\d+$/.test(s)\<close> of the input schema; \<open>timezone_match\<close> is
  \<^verbatim>\<open>s.match(/^UTC([+-])(\d+)$/)\<close> of the handler, giving the two groups.
\<close>

definition is_digit :: "int \<Rightarrow> bool" where
  "is_digit c \<longleftrightarrow> 0x30 \<le> c \<and> c \<le> 0x39"

fun timezone_schema :: "js_string \<Rightarrow> bool" where
  "timezone_schema (u # t # c # s # d # ds) =
     (u = 0x55 \<and> t = 0x54 \<and> c = 0x43 \<and> (s = 0x2B \<or> s = 0x2D) \<and> list_all is_digit (d # ds))"
| "timezone_schema _ = False"

fun timezone_match :: "js_string \<Rightarrow> (js_string \<times> js_string) option" where
  "timezone_match (u # t # c # s # ds) =
     (if [u, t, c] = asc ''UTC'' \<and> (s = 0x2B \<or> s = 0x2D) \<and> ds \<noteq> [] \<and> list_all is_digit ds
      then Some ([s], ds) else None)"
| "timezone_match _ = None"

subsection \<open>Dates\<close>

text \<open>
  \<open>parseInt(ds, 10)\<close> on a string of digits. The handler's numbers are integers; a
  time value is a number of milliseconds since the epoch, and \<open>new Date(t)\<close> is an
  invalid date (\<open>None\<close>) when \<open>t\<close> lies more than \<open>8.64 * 10^15\<close> ms from the epoch.
  Integer arithmetic is exact in binary64 below \<open>2^53\<close>, which is more than
  \<open>8.64 * 10^15\<close>: an offset whose milliseconds reach \<open>2^53\<close> gives an invalid date
  for every instant within 20000 years of the epoch, rounded or not.
  The fields of a date follow the proleptic Gregorian calendar, as ECMAScript's
  \<open>YearFromTime\<close>, \<open>MonthFromTime\<close> and \<open>DateFromTime\<close> do; a field of an invalid
  date is NaN (\<open>None\<close>).
\<close>

definition parse_digits :: "js_string \<Rightarrow> int" where
  "parse_digits ds = foldl (\<lambda>a c. 10 * a + (c - 0x30)) 0 ds"

definition time_clip :: "int \<Rightarrow> int option" where
  "time_clip t = (if \<bar>t\<bar> \<le> 8640000000000000 then Some t else None)"

definition days_of_time :: "int \<Rightarrow> int" where
  "days_of_time t = t div 86400000"

definition day_of_era :: "int \<Rightarrow> int" where
  "day_of_era t = (days_of_time t + 719468) mod 146097"

definition era :: "int \<Rightarrow> int" where
  "era t = (days_of_time t + 719468) div 146097"

definition year_of_era :: "int \<Rightarrow> int" where
  "year_of_era t =
     (day_of_era t - day_of_era t div 1460 + day_of_era t div 36524 - day_of_era t div 146096)
     div 365"

definition day_of_year :: "int \<Rightarrow> int" where
  "day_of_year t =
     day_of_era t - (365 * year_of_era t + year_of_era t div 4 - year_of_era t div 100)"

definition month_index :: "int \<Rightarrow> int" where
  "month_index t = (5 * day_of_year t + 2) div 153"

definition getUTCMonth :: "int option \<Rightarrow> int option" where
  "getUTCMonth d =
     map_option (\<lambda>t. if month_index t < 10 then month_index t + 2 else month_index t - 10) d"

definition getUTCDate :: "int option \<Rightarrow> int option" where
  "getUTCDate d = map_option (\<lambda>t. day_of_year t - (153 * month_index t + 2) div 5 + 1) d"

definition getUTCFullYear :: "int option \<Rightarrow> int option" where
  "getUTCFullYear d =
     map_option (\<lambda>t. year_of_era t + era t * 400 + (if month_index t < 10 then 0 else 1)) d"

definition getUTCHours :: "int option \<Rightarrow> int option" where
  "getUTCHours d = map_option (\<lambda>t. t mod 86400000 div 3600000) d"

definition getUTCMinutes :: "int option \<Rightarrow> int option" where
  "getUTCMinutes d = map_option (\<lambda>t. t mod 3600000 div 60000) d"

definition getUTCSeconds :: "int option \<Rightarrow> int option" where
  "getUTCSeconds d = map_option (\<lambda>t. t mod 60000 div 1000) d"

definition field_to_string :: "int option \<Rightarrow> js_string" where
  "field_to_string f = (case f of None \<Rightarrow> asc ''NaN'' | Some i \<Rightarrow> show_int i)"

definition padStart2 :: "js_string \<Rightarrow> js_string" where
  "padStart2 s = replicate (2 - length s) 0x30 @ s"

subsection \<open>The handler\<close>

definition malformed_timezone_message :: js_string where
  "malformed_timezone_message =
     [0xC798, 0xBABB, 0xB41C, 0x20, 0xC2DC, 0xAC04, 0xB300, 0x20, 0xD615, 0xC2DD, 0xC785,
      0xB2C8, 0xB2E4] @ asc ''. UTC+'' @ [0xC22B, 0xC790, 0x20, 0xB610, 0xB294] @
     asc '' UTC-'' @
     [0xC22B, 0xC790, 0x20, 0xD615, 0xC2DD, 0xC744, 0x20, 0xC0AC, 0xC6A9, 0xD574, 0xC8FC,
      0xC138, 0xC694, 0x2E]"

definition malformed_timezone_text :: js_string where
  "malformed_timezone_text = error_prefix @ malformed_timezone_message"

definition current_time_infix :: js_string where
  "current_time_infix =
     [0x20, 0xC2DC, 0xAC04, 0xB300, 0xC758, 0x20, 0xD604, 0xC7AC, 0x20, 0xC2DC, 0xAC01,
      0x3A, 0x20]"

text \<open>
  \<open>timeString\<close> of the handler for the date \<open>targetTime\<close>: the year as it prints, the
  other fields padded to two places.
\<close>

definition time_string :: "int option \<Rightarrow> js_string" where
  "time_string targetTime =
     field_to_string (getUTCFullYear targetTime) @ asc ''-'' @
     padStart2 (field_to_string (map_option (\<lambda>m. m + 1) (getUTCMonth targetTime))) @ asc ''-'' @
     padStart2 (field_to_string (getUTCDate targetTime)) @ asc '' '' @
     padStart2 (field_to_string (getUTCHours targetTime)) @ asc '':'' @
     padStart2 (field_to_string (getUTCMinutes targetTime)) @ asc '':'' @
     padStart2 (field_to_string (getUTCSeconds targetTime))"

text \<open>
  The handler reads the clock once: \<open>now\<close> is \<open>now.getTime()\<close>, the milliseconds since
  the epoch in UTC, and \<open>timezoneOffset\<close> is \<open>now.getTimezoneOffset()\<close>, the minutes
  by which UTC is ahead of the local time of the process (\<open>-540\<close> in Seoul, \<open>0\<close> where
  the local time is UTC).
\<close>

definition time_handler :: "js_string \<Rightarrow> int \<Rightarrow> int \<Rightarrow> tool_result" where
  "time_handler timezone now timezoneOffset =
     (case timezone_match timezone of
        None \<Rightarrow>
          \<lparr>content = [Block (asc ''text'') malformed_timezone_text],
           structuredContent = \<lparr>content = [Block (asc ''text'') malformed_timezone_text]\<rparr>\<rparr>
      | Some (sign_group, digits) \<Rightarrow>
          (let sign = (if sign_group = asc ''+'' then 1 else - 1);
               offsetHours = parse_digits digits;
               utcTime = now + timezoneOffset * 60 * 1000;
               targetTime = time_clip (utcTime + offsetHours * 60 * 60 * 1000 * sign);
               resultText = timezone @ current_time_infix @ time_string targetTime
           in \<lparr>content = [Block (asc ''text'') resultText],
               structuredContent = \<lparr>content = [Block (asc ''text'') resultText]\<rparr>\<rparr>))"

section \<open>Property lookup on an object literal\<close>

text \<open>
  \<open>table[key]\<close> on an object literal finds the own property of that name or else
  the property the object inherits from \<open>Object.prototype\<close>: one of the built-in
  functions, or the prototype object itself under \<open>__proto__\<close>. An inherited value is
  truthy, and appended to a string it prints as the source text of the built-in
  function (\<open>constructor\<close> is the function \<open>Object\<close>) or as \<open>[object Object]\<close>.
\<close>

datatype property = Own js_string | Inherited js_string | Missing

definition object_prototype_names :: "js_string list" where
  "object_prototype_names =
     [asc ''constructor'', asc ''__defineGetter__'', asc ''__defineSetter__'',
      asc ''hasOwnProperty'', asc ''__lookupGetter__'', asc ''__lookupSetter__'',
      asc ''isPrototypeOf'', asc ''propertyIsEnumerable'', asc ''toString'', asc ''valueOf'',
      asc ''__proto__'', asc ''toLocaleString'']"

definition get_property :: "(js_string \<times> js_string) list \<Rightarrow> js_string \<Rightarrow> property" where
  "get_property table key =
     (case map_of table key of
        Some v \<Rightarrow> Own v
      | None \<Rightarrow> if key \<in> set object_prototype_names then Inherited key else Missing)"

fun truthy :: "property \<Rightarrow> bool" where
  "truthy (Own v) = (v \<noteq> [])"
| "truthy (Inherited key) = True"
| "truthy Missing = False"

fun property_to_string :: "property \<Rightarrow> js_string" where
  "property_to_string (Own v) = v"
| "property_to_string (Inherited key) =
     (if key = asc ''__proto__'' then asc ''[object Object]''
      else asc ''function '' @ (if key = asc ''constructor'' then asc ''Object'' else key) @
           asc ''() { [native code] }'')"
| "property_to_string Missing = asc ''undefined''"

section \<open>The get-weather tool: weather codes\<close>

text \<open>
  The table \<open>weatherCodes\<close> of \<open>getWeatherDescription\<close>, in the order of the source.
  The keys of an object literal are strings: a numeric key is the text of the number,
  and \<open>weatherCodes[code]\<close> looks up the text JavaScript prints for \<open>code\<close>. The
  fallback text is \<^verbatim>\<open>U+B0A0 U+C528 " " U+CF54 U+B4DC ": "\<close> (``weather code: '') followed
  by the code as a template literal prints it.
\<close>

definition weatherCodes :: "(js_string \<times> js_string) list" where
  "weatherCodes =
    [(asc ''0'', [0xB9D1, 0xC74C]),
     (asc ''1'', [0xB300, 0xCCB4, 0xB85C, 0x20, 0xB9D1, 0xC74C]),
     (asc ''2'', [0xBD80, 0xBD84, 0xC801, 0xC73C, 0xB85C, 0x20, 0xD750, 0xB9BC]),
     (asc ''3'', [0xD750, 0xB9BC]),
     (asc ''45'', [0xC548, 0xAC1C]),
     (asc ''48'', [0xC11C, 0xB9AC, 0x20, 0xC548, 0xAC1C]),
     (asc ''51'', [0xC57D, 0xD55C, 0x20, 0xC774, 0xC2AC, 0xBE44]),
     (asc ''53'', [0xC911, 0xAC04, 0x20, 0xC774, 0xC2AC, 0xBE44]),
     (asc ''55'', [0xAC15, 0xD55C, 0x20, 0xC774, 0xC2AC, 0xBE44]),
     (asc ''56'', [0xC57D, 0xD55C, 0x20, 0xB3D9, 0xACB0, 0x20, 0xC774, 0xC2AC, 0xBE44]),
     (asc ''57'', [0xAC15, 0xD55C, 0x20, 0xB3D9, 0xACB0, 0x20, 0xC774, 0xC2AC, 0xBE44]),
     (asc ''61'', [0xC57D, 0xD55C, 0x20, 0xBE44]),
     (asc ''63'', [0xC911, 0xAC04, 0x20, 0xBE44]),
     (asc ''65'', [0xAC15, 0xD55C, 0x20, 0xBE44]),
     (asc ''66'', [0xC57D, 0xD55C, 0x20, 0xB3D9, 0xACB0, 0x20, 0xBE44]),
     (asc ''67'', [0xAC15, 0xD55C, 0x20, 0xB3D9, 0xACB0, 0x20, 0xBE44]),
     (asc ''71'', [0xC57D, 0xD55C, 0x20, 0xB208]),
     (asc ''73'', [0xC911, 0xAC04, 0x20, 0xB208]),
     (asc ''75'', [0xAC15, 0xD55C, 0x20, 0xB208]),
     (asc ''77'', [0xB208, 0xC54C]),
     (asc ''80'', [0xC57D, 0xD55C, 0x20, 0xC18C, 0xB098, 0xAE30]),
     (asc ''81'', [0xC911, 0xAC04, 0x20, 0xC18C, 0xB098, 0xAE30]),
     (asc ''82'', [0xAC15, 0xD55C, 0x20, 0xC18C, 0xB098, 0xAE30]),
     (asc ''85'', [0xC57D, 0xD55C, 0x20, 0xB208, 0x20, 0xC18C, 0xB098, 0xAE30]),
     (asc ''86'', [0xAC15, 0xD55C, 0x20, 0xB208, 0x20, 0xC18C, 0xB098, 0xAE30]),
     (asc ''95'', [0xB1CC, 0xC6B0]),
     (asc ''96'', [0xC6B0, 0xBC15, 0xC744, 0x20, 0xB3D9, 0xBC18, 0xD55C, 0x20, 0xB1CC, 0xC6B0]),
     (asc ''99'', [0xAC15, 0xD55C, 0x20, 0xC6B0, 0xBC15, 0xC744, 0x20, 0xB3D9, 0xBC18, 0xD55C, 0x20, 0xB1CC, 0xC6B0])]"

definition weather_code_prefix :: js_string where
  "weather_code_prefix = [0xB0A0, 0xC528, 0x20, 0xCF54, 0xB4DC, 0x3A, 0x20]"

text \<open>
  \<^verbatim>\<open>weatherCodes[code] || `...${code}`\<close>: the description when the lookup gives a
  truthy value, the fallback otherwise.
\<close>

definition getWeatherDescription :: "number \<Rightarrow> js_string" where
  "getWeatherDescription code =
     (if truthy (get_property weatherCodes (number_to_string code))
      then property_to_string (get_property weatherCodes (number_to_string code))
      else weather_code_prefix @ number_to_string code)"

section \<open>Exceptions and outbound calls\<close>

text \<open>
  A thrown value is an \<open>Error\<close> with its message, or something that is not an instance
  of \<open>Error\<close>, kept as the text \<open>String\<close> gives it. An awaited call of the
  environment (\<open>fetch\<close>, \<open>response.json()\<close>, the image API) either throws or returns;
  its outcome is an argument of the handler that makes it. The body that
  \<open>response.json()\<close> parses is typed by the answer the endpoint documents.
\<close>

datatype thrown = Error js_string | NonError js_string

record 'body response =
  ok :: bool
  status :: int
  statusText :: js_string
  json :: "thrown + 'body"

datatype 'body fetched = Rejected thrown | Responded "'body response"

definition unknown_error_text :: js_string where
  "unknown_error_text =
     [0xC54C, 0x20, 0xC218, 0x20, 0xC5C6, 0xB294, 0x20, 0xC624, 0xB958, 0xAC00, 0x20,
      0xBC1C, 0xC0DD, 0xD588, 0xC2B5, 0xB2C8, 0xB2E4, 0x2E]"

definition api_request_failed :: js_string where
  "api_request_failed = asc ''API '' @ [0xC694, 0xCCAD, 0x20, 0xC2E4, 0xD328, 0x3A, 0x20]"

text \<open>
  A property of the answer that may be missing (\<open>undefined\<close>), \<open>null\<close> or present, an
  array element read by index, and their text in a template literal.
\<close>

datatype 'a field = Undefined | Null | Present 'a

definition element :: "'a field list \<Rightarrow> nat \<Rightarrow> 'a field" where
  "element xs i = (if i < length xs then xs ! i else Undefined)"

definition field_text :: "('a \<Rightarrow> js_string) \<Rightarrow> 'a field \<Rightarrow> js_string" where
  "field_text to_text f =
     (case f of Undefined \<Rightarrow> asc ''undefined'' | Null \<Rightarrow> asc ''null'' | Present v \<Rightarrow> to_text v)"

subsection \<open>encodeURIComponent\<close>

text \<open>
  \<open>encodeURIComponent\<close> throws a \<open>URIError\<close> on a string with a lone surrogate: a
  high surrogate (\<open>D800\<close> to \<open>DBFF\<close>) not followed by a low one (\<open>DC00\<close> to
  \<open>DFFF\<close>), or a low one on its own. The encoded text only goes into the URL of the
  request.
\<close>

fun well_formed_utf16 :: "js_string \<Rightarrow> bool" where
  "well_formed_utf16 [] = True"
| "well_formed_utf16 [c] = (c < 0xD800 \<or> 0xDFFF < c)"
| "well_formed_utf16 (c # d # r) =
     (if 0xD800 \<le> c \<and> c \<le> 0xDBFF then 0xDC00 \<le> d \<and> d \<le> 0xDFFF \<and> well_formed_utf16 r
      else (c < 0xD800 \<or> 0xDFFF < c) \<and> well_formed_utf16 (d # r))"

definition uri_malformed :: thrown where
  "uri_malformed = Error (asc ''URI malformed'')"

subsection \<open>parseFloat\<close>

text \<open>
  \<open>parseFloat\<close> skips leading white space and reads the longest prefix that is a
  decimal literal: an optional sign, then \<open>Infinity\<close> or digits with an optional
  fraction and an optional exponent (taken only when it is complete). Without such a
  prefix the result is NaN; otherwise it is the value of the prefix rounded to a
  binary64 value.
\<close>

definition is_space :: "int \<Rightarrow> bool" where
  "is_space c \<longleftrightarrow>
     c \<in> {0x9, 0xA, 0xB, 0xC, 0xD, 0x20, 0xA0, 0x1680, 0x2028, 0x2029, 0x202F, 0x205F, 0x3000,
          0xFEFF} \<or> (0x2000 \<le> c \<and> c \<le> 0x200A)"

definition digits_value :: "js_string \<Rightarrow> int" where
  "digits_value ds = foldl (\<lambda>a c. 10 * a + (c - 0x30)) 0 ds"

definition exponent_value :: "js_string \<Rightarrow> int" where
  "exponent_value r =
     (case r of
        e # s # ds \<Rightarrow>
          if e \<noteq> 0x65 \<and> e \<noteq> 0x45 then 0
          else if (s = 0x2B \<or> s = 0x2D) \<and> takeWhile is_digit ds \<noteq> []
          then (if s = 0x2D then - 1 else 1) * digits_value (takeWhile is_digit ds)
          else digits_value (takeWhile is_digit (s # ds))
      | _ \<Rightarrow> 0)"

definition decimal_value :: "js_string \<Rightarrow> js_string \<Rightarrow> js_string \<Rightarrow> rat" where
  "decimal_value whole fraction rest =
     of_int (digits_value (whole @ fraction)) * pow10 (exponent_value rest - int (length fraction))"

definition fraction_digits :: "js_string \<Rightarrow> js_string" where
  "fraction_digits r = (case r of c # ds \<Rightarrow> if c = 0x2E then takeWhile is_digit ds else [] | [] \<Rightarrow> [])"

definition after_fraction :: "js_string \<Rightarrow> js_string" where
  "after_fraction r = (case r of c # ds \<Rightarrow> if c = 0x2E then dropWhile is_digit ds else r | [] \<Rightarrow> [])"

definition parse_unsigned :: "bool \<Rightarrow> js_string \<Rightarrow> number" where
  "parse_unsigned negative r =
     (if starts_with (asc ''Infinity'') r then signed_inf negative
      else if takeWhile is_digit r = [] \<and> fraction_digits (dropWhile is_digit r) = [] then NaN
      else if decimal_value (takeWhile is_digit r) (fraction_digits (dropWhile is_digit r))
                (after_fraction (dropWhile is_digit r)) = 0
      then signed_zero negative
      else round_double
             ((if negative then - 1 else 1) *
              decimal_value (takeWhile is_digit r) (fraction_digits (dropWhile is_digit r))
                (after_fraction (dropWhile is_digit r))))"

definition parse_signed :: "js_string \<Rightarrow> number" where
  "parse_signed r =
     (case r of
        c # cs \<Rightarrow>
          if c = 0x2D then parse_unsigned True cs
          else if c = 0x2B then parse_unsigned False cs
          else parse_unsigned False r
      | [] \<Rightarrow> NaN)"

definition parseFloat :: "js_string \<Rightarrow> number" where
  "parseFloat s = parse_signed (dropWhile is_space s)"

subsection \<open>Base64\<close>

text \<open>
  \<open>Buffer.from(buffer).toString('base64')\<close>: three bytes become four characters of the
  alphabet \<open>A-Z a-z 0-9 + /\<close>, the last group padded with \<open>=\<close>.
\<close>

definition base64_char :: "int \<Rightarrow> int" where
  "base64_char i =
     (if i < 26 then 0x41 + i
      else if i < 52 then 0x61 + (i - 26)
      else if i < 62 then 0x30 + (i - 52)
      else if i = 62 then 0x2B else 0x2F)"

fun base64 :: "int list \<Rightarrow> js_string" where
  "base64 (a # b # c # r) =
     [base64_char (a div 4), base64_char (a mod 4 * 16 + b div 16),
      base64_char (b mod 16 * 4 + c div 64), base64_char (c mod 64)] @ base64 r"
| "base64 [a, b] =
     [base64_char (a div 4), base64_char (a mod 4 * 16 + b div 16), base64_char (b mod 16 * 4),
      0x3D]"
| "base64 [a] = [base64_char (a div 4), base64_char (a mod 4 * 16), 0x3D, 0x3D]"
| "base64 [] = []"

section \<open>The geocode tool\<close>

text \<open>
  The search endpoint answers with an array of places, each with \<open>lat\<close>, \<open>lon\<close>
  (texts) and \<open>display_name\<close>, any of which may be missing; an answer that is not an
  array is \<open>NotAnArray\<close>.
\<close>

record place =
  lat :: "js_string option"
  lon :: "js_string option"
  display_name :: "js_string option"

datatype geocode_body = NotAnArray | Places "place list"

definition not_found_text :: "js_string \<Rightarrow> js_string" where
  "not_found_text query =
     [0x22] @ query @
     [0x22, 0xC5D0, 0x20, 0xB300, 0xD55C, 0x20, 0xAC80, 0xC0C9, 0x20, 0xACB0, 0xACFC,
      0xB97C, 0x20, 0xCC3E, 0xC744, 0x20, 0xC218, 0x20, 0xC5C6, 0xC2B5, 0xB2C8, 0xB2E4,
      0x2E]"

text \<open>
  \<open>parseFloat(result.lat)\<close> turns a missing property into the text \<open>undefined\<close>
  first, and \<open>result.display_name || query\<close> takes the query for a missing or empty
  name. The labels of the result text are \<open>U+C704 U+CE58\<close> (location),
  \<open>U+C704 U+B3C4\<close> (latitude) and \<open>U+ACBD U+B3C4\<close> (longitude).
\<close>

definition parse_coordinate :: "js_string option \<Rightarrow> number" where
  "parse_coordinate v = parseFloat (case v of None \<Rightarrow> asc ''undefined'' | Some s \<Rightarrow> s)"

definition place_text :: "js_string \<Rightarrow> place \<Rightarrow> js_string" where
  "place_text query result =
     (let lat = parse_coordinate (lat result);
          lon = parse_coordinate (lon result);
          displayName =
            (case display_name result of
               None \<Rightarrow> query
             | Some n \<Rightarrow> if n = [] then query else n)
      in [0xC704, 0xCE58, 0x3A, 0x20] @ displayName @
         [0xA, 0xC704, 0xB3C4, 0x3A, 0x20] @ number_to_string lat @
         [0xA, 0xACBD, 0xB3C4, 0x3A, 0x20] @ number_to_string lon)"

text \<open>
  The \<open>try\<close> block: what it throws (\<open>Inl\<close>) or returns (\<open>Inr\<close>), given what the
  call of \<open>fetch\<close> did.
\<close>

definition geocode_try :: "js_string \<Rightarrow> geocode_body fetched \<Rightarrow> thrown + tool_result" where
  "geocode_try query fetch =
     (if \<not> well_formed_utf16 query then Inl uri_malformed
      else case fetch of
        Rejected error \<Rightarrow> Inl error
      | Responded response \<Rightarrow>
          if \<not> ok response
          then Inl (Error (api_request_failed @ show_int (status response) @ asc '' '' @
                 statusText response))
          else case json response of
            Inl error \<Rightarrow> Inl error
          | Inr NotAnArray \<Rightarrow>
              Inr \<lparr>content = [Block (asc ''text'') (not_found_text query)],
                   structuredContent =
                     \<lparr>content = [Block (asc ''text'') (not_found_text query)]\<rparr>\<rparr>
          | Inr (Places []) \<Rightarrow>
              Inr \<lparr>content = [Block (asc ''text'') (not_found_text query)],
                   structuredContent =
                     \<lparr>content = [Block (asc ''text'') (not_found_text query)]\<rparr>\<rparr>
          | Inr (Places (result # others)) \<Rightarrow>
              (let resultText = place_text query result
               in Inr \<lparr>content = [Block (asc ''text'') resultText],
                       structuredContent = \<lparr>content = [Block (asc ''text'') resultText]\<rparr>\<rparr>))"

text \<open>The handler: the \<open>try\<close> block and its \<open>catch\<close>.\<close>

definition geocode :: "js_string \<Rightarrow> geocode_body fetched \<Rightarrow> tool_result" where
  "geocode query fetch =
     (case geocode_try query fetch of
        Inr result \<Rightarrow> result
      | Inl error \<Rightarrow>
          (let errorMessage =
             (case error of Error message \<Rightarrow> message | NonError v \<Rightarrow> unknown_error_text)
           in \<lparr>content = [Block (asc ''text'') (error_prefix @ errorMessage)],
               structuredContent =
                 \<lparr>content = [Block (asc ''text'') (error_prefix @ errorMessage)]\<rparr>\<rparr>))"

section \<open>The get-weather tool\<close>

text \<open>
  The forecast endpoint answers with \<open>current_weather\<close> (temperature, weather code,
  wind speed and direction) and \<open>daily\<close> (the dates and, per date, the extreme
  temperatures, the precipitation and the weather code). Every part may be missing, and
  a value of an array may be \<open>null\<close>; a \<open>null\<close> body is \<open>None\<close>.
\<close>

record current_weather =
  temperature :: "number field"
  weathercode :: "number field"
  windspeed :: "number field"
  winddirection :: "number field"

record daily =
  daily_time :: "js_string list option"
  temperature_2m_max :: "number field list option"
  temperature_2m_min :: "number field list option"
  precipitation_sum :: "number field list option"
  daily_weathercode :: "number field list option"

record forecast =
  current_weather :: "current_weather option"
  daily :: "daily option"

definition no_weather_data :: js_string where
  "no_weather_data =
     [0xB0A0, 0xC528, 0x20, 0xB370, 0xC774, 0xD130, 0xB97C, 0x20, 0xAC00, 0xC838,
      0xC62C, 0x20, 0xC218, 0x20, 0xC5C6, 0xC2B5, 0xB2C8, 0xB2E4, 0x2E]"

text \<open>
  \<open>getWeatherDescription\<close> where the code read from the answer is missing or
  \<open>null\<close>: the table has no such key, and the fallback prints the value.
\<close>

definition describe_code :: "number field \<Rightarrow> js_string" where
  "describe_code c =
     (case c of
        Present code \<Rightarrow> getWeatherDescription code
      | Null \<Rightarrow> weather_code_prefix @ asc ''null''
      | Undefined \<Rightarrow> weather_code_prefix @ asc ''undefined'')"

text \<open>\<open>precipitations[i] > 0\<close>: false for a missing value, \<open>null\<close>, NaN and zero.\<close>

fun is_positive :: "number field \<Rightarrow> bool" where
  "is_positive (Present (Fin r)) = (0 < r)"
| "is_positive (Present PosInf) = True"
| "is_positive f = False"

text \<open>
  The text of the current weather, and of one day of the forecast (\<open>dates\<close> is
  \<open>times\<close> of the source, the array \<open>daily.time\<close>, and \<open>dailyCodes\<close> its local
  \<open>weatherCodes\<close>, the array \<open>daily.weathercode\<close>). \<open>local_date\<close>
  stands for \<open>new Date(s)\<close> read with \<open>getMonth()\<close> and \<open>getDate()\<close>, the month
  (from 0) and the day of the date \<open>s\<close> in the local time of the process, \<open>None\<close> for
  an invalid date.
\<close>

definition current_text :: "current_weather \<Rightarrow> js_string" where
  "current_text current =
     asc ''=== '' @ [0xD604, 0xC7AC, 0x20, 0xB0A0, 0xC528] @ asc '' ==='' @ [0xA] @
     [0xC628, 0xB3C4, 0x3A, 0x20] @ field_text number_to_string (temperature current) @
     [0xB0, 0x43, 0xA] @
     [0xB0A0, 0xC528, 0x3A, 0x20] @ describe_code (weathercode current) @ [0xA] @
     [0xD48D, 0xC18D, 0x3A, 0x20] @ field_text number_to_string (windspeed current) @
     asc '' km/h'' @ [0xA] @
     [0xD48D, 0xD5A5, 0x3A, 0x20] @ field_text number_to_string (winddirection current) @
     [0xB0, 0xA, 0xA]"

definition date_text :: "(int \<times> int) option \<Rightarrow> js_string" where
  "date_text d =
     (case d of
        None \<Rightarrow> asc ''NaN/NaN''
      | Some (month, day) \<Rightarrow> show_int (month + 1) @ asc ''/'' @ show_int day)"

definition day_text ::
  "(js_string \<Rightarrow> (int \<times> int) option) \<Rightarrow> js_string list \<Rightarrow> number field list \<Rightarrow>
   number field list \<Rightarrow> number field list \<Rightarrow> number field list \<Rightarrow> nat \<Rightarrow> js_string" where
  "day_text local_date dates maxTemps minTemps precipitations dailyCodes i =
     [0xA] @ date_text (local_date (dates ! i)) @ asc '' ('' @ dates ! i @ asc '')'' @ [0xA] @
     [0x20, 0x20, 0xB0A0, 0xC528, 0x3A, 0x20] @ describe_code (element dailyCodes i) @ [0xA] @
     [0x20, 0x20, 0xCD5C, 0xACE0, 0x3A, 0x20] @ field_text number_to_string (element maxTemps i) @
     [0xB0] @ asc ''C / '' @ [0xCD5C, 0xC800, 0x3A, 0x20] @
     field_text number_to_string (element minTemps i) @ [0xB0, 0x43, 0xA] @
     (if is_positive (element precipitations i)
      then [0x20, 0x20, 0xAC15, 0xC218, 0xB7C9, 0x3A, 0x20] @
           field_text number_to_string (element precipitations i) @ asc '' mm'' @ [0xA]
      else [])"

definition or_empty :: "'a list option \<Rightarrow> 'a list" where
  "or_empty xs = (case xs of None \<Rightarrow> [] | Some ys \<Rightarrow> ys)"

definition daily_text ::
  "(js_string \<Rightarrow> (int \<times> int) option) \<Rightarrow> int \<Rightarrow> daily option \<Rightarrow> js_string" where
  "daily_text local_date forecastDays d =
     (case d of
        None \<Rightarrow> []
      | Some days \<Rightarrow>
          (case daily_time days of
             None \<Rightarrow> []
           | Some dates \<Rightarrow>
               asc ''=== '' @ show_int forecastDays @ [0xC77C, 0x20, 0xC608, 0xBCF4] @
               asc '' ==='' @ [0xA] @
               concat (map (day_text local_date dates (or_empty (temperature_2m_max days))
                              (or_empty (temperature_2m_min days))
                              (or_empty (precipitation_sum days))
                              (or_empty (daily_weathercode days)))
                         [0 ..< nat (min (int (length dates)) forecastDays)])))"

definition get_weather_try ::
  "(js_string \<Rightarrow> (int \<times> int) option) \<Rightarrow> int \<Rightarrow> forecast option fetched \<Rightarrow>
   thrown + tool_result" where
  "get_weather_try local_date forecastDays fetch =
     (case fetch of
        Rejected error \<Rightarrow> Inl error
      | Responded response \<Rightarrow>
          if \<not> ok response
          then Inl (Error (api_request_failed @ show_int (status response) @ asc '' '' @
                 statusText response))
          else case json response of
            Inl error \<Rightarrow> Inl error
          | Inr None \<Rightarrow> Inl (Error no_weather_data)
          | Inr (Some data) \<Rightarrow>
              (case current_weather data of
                 None \<Rightarrow> Inl (Error no_weather_data)
               | Some current \<Rightarrow>
                   (let resultText =
                      current_text current @ daily_text local_date forecastDays (daily data)
                    in Inr \<lparr>content = [Block (asc ''text'') resultText],
                            structuredContent =
                              \<lparr>content = [Block (asc ''text'') resultText]\<rparr>\<rparr>)))"

text \<open>
  The handler. The latitude and the longitude only go into the URL of the request; the
  schema makes \<open>forecastDays\<close> an integer from 1 to 16.
\<close>

definition get_weather ::
  "number \<Rightarrow> number \<Rightarrow> int \<Rightarrow> (js_string \<Rightarrow> (int \<times> int) option) \<Rightarrow>
   forecast option fetched \<Rightarrow> tool_result" where
  "get_weather latitude longitude forecastDays local_date fetch =
     (case get_weather_try local_date forecastDays fetch of
        Inr result \<Rightarrow> result
      | Inl error \<Rightarrow>
          (let errorMessage =
             (case error of Error message \<Rightarrow> message | NonError v \<Rightarrow> unknown_error_text)
           in \<lparr>content = [Block (asc ''text'') (error_prefix @ errorMessage)],
               structuredContent =
                 \<lparr>content = [Block (asc ''text'') (error_prefix @ errorMessage)]\<rparr>\<rparr>))"

section \<open>The generate-image tool\<close>

definition missing_token_text :: js_string where
  "missing_token_text =
     asc ''HF_TOKEN '' @
     [0xD658, 0xACBD, 0x20, 0xBCC0, 0xC218, 0xAC00, 0x20, 0xC124, 0xC815, 0xB418,
      0xC9C0, 0x20, 0xC54A, 0xC558, 0xC2B5, 0xB2C8, 0xB2E4, 0x2E]"

definition api_call_failed :: "js_string \<Rightarrow> js_string" where
  "api_call_failed apiErrorMessage =
     asc ''Hugging Face API '' @ [0xD638, 0xCD9C, 0x20, 0xC2E4, 0xD328, 0x3A, 0x20] @
     apiErrorMessage @ asc ''. HF_TOKEN'' @
     [0xC774, 0x20, 0xC62C, 0xBC14, 0xB974, 0xAC8C, 0x20, 0xC124, 0xC815, 0xB418,
      0xC5B4, 0x20, 0xC788, 0xB294, 0xC9C0, 0x20, 0xD655, 0xC778, 0xD574, 0xC8FC, 0xC138,
      0xC694, 0x2E]"

text \<open>
  \<open>HF_TOKEN\<close> is \<open>process.env.HF_TOKEN\<close>, missing or a text (an empty text is falsy
  as well); \<open>textToImage\<close> is what the call of the image API did, an exception or
  the bytes of the image. The inner \<open>catch\<close> wraps the message of an exception (or
  its text, when it is not an \<open>Error\<close>) into a new \<open>Error\<close>, after logging it.
\<close>

definition generate_image_try :: "js_string option \<Rightarrow> thrown + int list \<Rightarrow> thrown + tool_result" where
  "generate_image_try HF_TOKEN textToImage =
     (if HF_TOKEN = None \<or> HF_TOKEN = Some [] then Inl (Error missing_token_text)
      else case textToImage of
        Inl apiError \<Rightarrow>
          (let apiErrorMessage =
             (case apiError of Error message \<Rightarrow> message | NonError v \<Rightarrow> v)
           in Inl (Error (api_call_failed apiErrorMessage)))
      | Inr imageBlob \<Rightarrow>
          (let base64Data = base64 imageBlob;
               dataUri = asc ''data:image/png;base64,'' @ base64Data
           in Inr \<lparr>content = [Block (asc ''text'') dataUri],
                   structuredContent = \<lparr>content = [Block (asc ''text'') dataUri]\<rparr>\<rparr>))"

definition generate_image ::
  "js_string \<Rightarrow> js_string option \<Rightarrow> thrown + int list \<Rightarrow> tool_result" where
  "generate_image prompt HF_TOKEN textToImage =
     (case generate_image_try HF_TOKEN textToImage of
        Inr result \<Rightarrow> result
      | Inl error \<Rightarrow>
          (let errorMessage =
             (case error of Error message \<Rightarrow> message | NonError v \<Rightarrow> unknown_error_text)
           in \<lparr>content = [Block (asc ''text'') (error_prefix @ errorMessage)],
               structuredContent =
                 \<lparr>content = [Block (asc ''text'') (error_prefix @ errorMessage)]\<rparr>\<rparr>))"

section \<open>The code-review prompt\<close>

subsection \<open>The template and the guideline tables\<close>

text \<open>
  The template, code unit by code unit, in three pieces: the text before the
  placeholder \<open>{code}\<close> (the five numbered sections and the opening fence of three
  backquotes), the placeholder, and the text after it.
\<close>

definition template_head :: js_string where
  "template_head =
     [0xB2E4, 0xC74C, 0x20, 0xCF54, 0xB4DC, 0xB97C, 0x20, 0xB9AC, 0xBDF0, 0xD574,
      0xC8FC, 0xC138, 0xC694, 0x2E, 0x20, 0xB2E4, 0xC74C, 0x20, 0xD56D, 0xBAA9, 0xB4E4,
      0xC744, 0x20, 0xC911, 0xC810, 0xC801, 0xC73C, 0xB85C, 0x20, 0xAC80, 0xD1A0, 0xD574,
      0xC8FC, 0xC138, 0xC694, 0x3A, 0xA, 0xA] @ asc ''1. **'' @
     [0xCF54, 0xB4DC, 0x20, 0xD488, 0xC9C8, 0x2A, 0x2A, 0xA] @ asc ''   - '' @
     [0xAC00, 0xB3C5, 0xC131, 0xACFC, 0x20, 0xC720, 0xC9C0, 0xBCF4, 0xC218, 0xC131,
      0xA] @ asc ''   - '' @
     [0xB124, 0xC774, 0xBC0D, 0x20, 0xCEE8, 0xBCA4, 0xC158, 0xA] @ asc ''   - '' @
     [0xCF54, 0xB4DC, 0x20, 0xAD6C, 0xC870, 0xC640, 0x20, 0xC870, 0xC9C1, 0xD654, 0xA,
      0xA] @ asc ''2. **'' @ [0xC131, 0xB2A5, 0x2A, 0x2A, 0xA] @ asc ''   - '' @
     [0xC7A0, 0xC7AC, 0xC801, 0xC778, 0x20, 0xC131, 0xB2A5, 0x20, 0xBCD1, 0xBAA9, 0xA] @
     asc ''   - '' @
     [0xCD5C, 0xC801, 0xD654, 0x20, 0xAC00, 0xB2A5, 0xD55C, 0x20, 0xBD80, 0xBD84, 0xA] @
     asc ''   - '' @
     [0xBA54, 0xBAA8, 0xB9AC, 0x20, 0xC0AC, 0xC6A9, 0x20, 0xD6A8, 0xC728, 0xC131, 0xA,
      0xA] @ asc ''3. **'' @ [0xBCF4, 0xC548, 0x2A, 0x2A, 0xA] @ asc ''   - '' @
     [0xBCF4, 0xC548, 0x20, 0xCDE8, 0xC57D, 0xC810, 0xA] @ asc ''   - '' @
     [0xC785, 0xB825, 0x20, 0xAC80, 0xC99D, 0xA] @ asc ''   - '' @
     [0xC5D0, 0xB7EC, 0x20, 0xCC98, 0xB9AC, 0xA, 0xA] @ asc ''4. **'' @
     [0xBAA8, 0xBC94, 0x20, 0xC0AC, 0xB840, 0x2A, 0x2A, 0xA] @ asc ''   - '' @
     [0xC5B8, 0xC5B4, 0xBCC4, 0x20, 0xBCA0, 0xC2A4, 0xD2B8, 0x20, 0xD504, 0xB799,
      0xD2F0, 0xC2A4, 0x20, 0xC900, 0xC218, 0x20, 0xC5EC, 0xBD80, 0xA] @ asc ''   - '' @
     [0xB514, 0xC790, 0xC778, 0x20, 0xD328, 0xD134, 0x20, 0xC801, 0xC6A9, 0xA] @
     asc ''   - '' @ [0xD14C, 0xC2A4, 0xD2B8, 0x20, 0xAC00, 0xB2A5, 0xC131, 0xA, 0xA] @
     asc ''5. **'' @ [0xAC1C, 0xC120, 0x20, 0xC81C, 0xC548, 0x2A, 0x2A, 0xA] @
     asc ''   - '' @
     [0xAD6C, 0xCCB4, 0xC801, 0xC778, 0x20, 0xAC1C, 0xC120, 0x20, 0xBC29, 0xC548, 0xA] @
     asc ''   - '' @ [0xB9AC, 0xD329, 0xD1A0, 0xB9C1, 0x20, 0xC81C, 0xC548, 0xA] @
     asc ''   - '' @
     [0xB300, 0xC548, 0x20, 0xCF54, 0xB4DC, 0x20, 0xC608, 0xC2DC, 0xA, 0xA, 0x2A, 0x2A,
      0xB9AC, 0xBDF0, 0xD560, 0x20, 0xCF54, 0xB4DC] @ asc '':**'' @
     [0xA, 0x60, 0x60, 0x60, 0xA]"

definition template_tail :: js_string where
  "template_tail =
     [0xA, 0x60, 0x60, 0x60, 0xA, 0xA, 0xC704, 0x20, 0xCF54, 0xB4DC, 0xC5D0, 0x20,
      0xB300, 0xD55C, 0x20, 0xC0C1, 0xC138, 0xD55C, 0x20, 0xB9AC, 0xBDF0, 0xB97C, 0x20,
      0xC81C, 0xACF5, 0xD574, 0xC8FC, 0xC138, 0xC694, 0x2E]"

definition codeReviewPromptTemplate :: js_string where
  "codeReviewPromptTemplate = template_head @ asc ''{code}'' @ template_tail"

definition languageGuidelines :: "(js_string \<times> js_string) list" where
  "languageGuidelines =
    [(asc ''typescript'',
      [0xA, 0xA] @ asc ''**TypeScript '' @
      [0xD2B9, 0xD654, 0x20, 0xAC80, 0xD1A0, 0x20, 0xC0AC, 0xD56D] @ asc '':**'' @
      [0xA, 0x2D, 0x20, 0xD0C0, 0xC785, 0x20, 0xC548, 0xC815, 0xC131, 0xACFC, 0x20,
       0xD0C0, 0xC785, 0x20, 0xCD94, 0xB860, 0xA, 0x2D, 0x20, 0xC81C, 0xB124, 0xB9AD,
       0x20, 0xC0AC, 0xC6A9, 0xC758, 0x20, 0xC801, 0xC808, 0xC131, 0xA, 0x2D, 0x20,
       0xC778, 0xD130, 0xD398, 0xC774, 0xC2A4, 0xC640, 0x20, 0xD0C0, 0xC785, 0x20, 0xC815,
       0xC758, 0xC758, 0x20, 0xBA85, 0xD655, 0xC131]),
     (asc ''javascript'',
      [0xA, 0xA] @ asc ''**JavaScript '' @
      [0xD2B9, 0xD654, 0x20, 0xAC80, 0xD1A0, 0x20, 0xC0AC, 0xD56D] @ asc '':**'' @
      [0xA] @ asc ''- ES6+ '' @
      [0xAE30, 0xB2A5, 0x20, 0xD65C, 0xC6A9, 0xA, 0x2D, 0x20, 0xBE44, 0xB3D9, 0xAE30,
       0x20, 0xCC98, 0xB9AC] @ asc '' (Promise, async/await)'' @
      [0xA, 0x2D, 0x20, 0xC2A4, 0xCF54, 0xD504, 0xC640, 0x20, 0xD074, 0xB85C, 0xC800,
       0x20, 0xC0AC, 0xC6A9]),
     (asc ''python'',
      [0xA, 0xA] @ asc ''**Python '' @
      [0xD2B9, 0xD654, 0x20, 0xAC80, 0xD1A0, 0x20, 0xC0AC, 0xD56D] @ asc '':**'' @
      [0xA] @ asc ''- PEP 8 '' @
      [0xC2A4, 0xD0C0, 0xC77C, 0x20, 0xAC00, 0xC774, 0xB4DC, 0x20, 0xC900, 0xC218, 0xA,
       0x2D, 0x20, 0xB9AC, 0xC2A4, 0xD2B8, 0x20, 0xCEF4, 0xD504, 0xB9AC, 0xD5E8, 0xC158,
       0x20, 0xD65C, 0xC6A9, 0xA, 0x2D, 0x20, 0xC608, 0xC678, 0x20, 0xCC98, 0xB9AC,
       0xC640, 0x20, 0xCEE8, 0xD14D, 0xC2A4, 0xD2B8, 0x20, 0xB9E4, 0xB2C8, 0xC800, 0x20,
       0xC0AC, 0xC6A9]),
     (asc ''java'',
      [0xA, 0xA] @ asc ''**Java '' @
      [0xD2B9, 0xD654, 0x20, 0xAC80, 0xD1A0, 0x20, 0xC0AC, 0xD56D] @ asc '':**'' @
      [0xA, 0x2D, 0x20, 0xAC1D, 0xCCB4, 0xC9C0, 0xD5A5, 0x20, 0xC124, 0xACC4, 0x20,
       0xC6D0, 0xCE59, 0xA, 0x2D, 0x20, 0xC608, 0xC678, 0x20, 0xCC98, 0xB9AC, 0x20,
       0xC804, 0xB7B5, 0xA, 0x2D, 0x20, 0xCEEC, 0xB809, 0xC158, 0x20, 0xD504, 0xB808,
       0xC784, 0xC6CC, 0xD06C, 0x20, 0xD65C, 0xC6A9]),
     (asc ''go'',
      [0xA, 0xA] @ asc ''**Go '' @
      [0xD2B9, 0xD654, 0x20, 0xAC80, 0xD1A0, 0x20, 0xC0AC, 0xD56D] @ asc '':**'' @
      [0xA, 0x2D, 0x20, 0xC5D0, 0xB7EC, 0x20, 0xCC98, 0xB9AC, 0x20, 0xD328, 0xD134, 0xA,
       0x2D, 0x20, 0xACE0, 0xB8E8, 0xD2F4, 0xACFC, 0x20, 0xCC44, 0xB110, 0x20, 0xC0AC,
       0xC6A9, 0xA, 0x2D, 0x20, 0xC778, 0xD130, 0xD398, 0xC774, 0xC2A4, 0x20, 0xC124,
       0xACC4])]"

definition focusGuidelines :: "(js_string \<times> js_string) list" where
  "focusGuidelines =
    [(asc ''performance'',
      [0xA, 0xA, 0x2A, 0x2A, 0xC131, 0xB2A5, 0x20, 0xCD5C, 0xC801, 0xD654, 0x20, 0xC9D1,
       0xC911, 0x20, 0xAC80, 0xD1A0] @ asc '':**'' @
      [0xA, 0x2D, 0x20, 0xC54C, 0xACE0, 0xB9AC, 0xC998, 0x20, 0xC2DC, 0xAC04, 0x20,
       0xBCF5, 0xC7A1, 0xB3C4, 0x20, 0xBD84, 0xC11D, 0xA, 0x2D, 0x20, 0xBD88, 0xD544,
       0xC694, 0xD55C, 0x20, 0xBC18, 0xBCF5, 0xBB38, 0xC774, 0xB098, 0x20, 0xC911, 0xCCA9,
       0x20, 0xB8E8, 0xD504, 0xA, 0x2D, 0x20, 0xCE90, 0xC2F1, 0x20, 0xAC00, 0xB2A5,
       0xD55C, 0x20, 0xC5F0, 0xC0B0, 0xA, 0x2D, 0x20, 0xB370, 0xC774, 0xD130, 0xBCA0,
       0xC774, 0xC2A4, 0x20, 0xCFFC, 0xB9AC, 0x20, 0xCD5C, 0xC801, 0xD654]),
     (asc ''security'',
      [0xA, 0xA, 0x2A, 0x2A, 0xBCF4, 0xC548, 0x20, 0xC9D1, 0xC911, 0x20, 0xAC80,
       0xD1A0] @ asc '':**'' @ [0xA] @ asc ''- SQL '' @
      [0xC778, 0xC81D, 0xC158, 0x20, 0xBC29, 0xC9C0, 0xA] @ asc ''- XSS '' @
      [0xACF5, 0xACA9, 0x20, 0xBC29, 0xC9C0, 0xA, 0x2D, 0x20, 0xC778, 0xC99D, 0x20,
       0xBC0F, 0x20, 0xAD8C, 0xD55C, 0x20, 0xAC80, 0xC99D, 0xA, 0x2D, 0x20, 0xBBFC,
       0xAC10, 0x20, 0xC815, 0xBCF4, 0x20, 0xB178, 0xCD9C, 0x20, 0xBC29, 0xC9C0]),
     (asc ''readability'',
      [0xA, 0xA, 0x2A, 0x2A, 0xAC00, 0xB3C5, 0xC131, 0x20, 0xC9D1, 0xC911, 0x20, 0xAC80,
       0xD1A0] @ asc '':**'' @
      [0xA, 0x2D, 0x20, 0xBCC0, 0xC218, 0xC640, 0x20, 0xD568, 0xC218, 0xBA85, 0xC758,
       0x20, 0xBA85, 0xD655, 0xC131, 0xA, 0x2D, 0x20, 0xC8FC, 0xC11D, 0xC758, 0x20,
       0xC801, 0xC808, 0xC131, 0xA, 0x2D, 0x20, 0xCF54, 0xB4DC, 0x20, 0xAE38, 0xC774,
       0xC640, 0x20, 0xBCF5, 0xC7A1, 0xB3C4, 0xA, 0x2D, 0x20, 0xC77C, 0xAD00, 0xB41C,
       0x20, 0xCF54, 0xB529, 0x20, 0xC2A4, 0xD0C0, 0xC77C])]"

subsection \<open>String.prototype.replace with a string pattern\<close>

text \<open>
  \<open>s.replace(pattern, replacement)\<close> with two strings replaces the first occurrence
  of the pattern, and the replacement is a template: \<open>$$\<close> stands for \<open>$\<close>,
  \<open>$&\<close> for the matched text, \<open>$`\<close> for the text before the match and \<open>$'\<close>
  for the text after it (ECMAScript's \<open>GetSubstitution\<close>; with a string pattern there
  are no capture groups, so \<open>$1\<close> and \<open>$<\<close> stay as they are).
\<close>

fun find_first :: "js_string \<Rightarrow> js_string \<Rightarrow> (js_string \<times> js_string) option" where
  "find_first p [] = (if p = [] then Some ([], []) else None)"
| "find_first p (c # cs) =
     (if starts_with p (c # cs) then Some ([], drop (length p) (c # cs))
      else map_option (\<lambda>found. (c # fst found, snd found)) (find_first p cs))"

fun get_substitution :: "js_string \<Rightarrow> js_string \<Rightarrow> js_string \<Rightarrow> js_string \<Rightarrow> js_string" where
  "get_substitution matched before after (c # d # r) =
     (if c = 0x24 \<and> d = 0x24 then 0x24 # get_substitution matched before after r
      else if c = 0x24 \<and> d = 0x60 then before @ get_substitution matched before after r
      else if c = 0x24 \<and> d = 0x26 then matched @ get_substitution matched before after r
      else if c = 0x24 \<and> d = 0x27 then after @ get_substitution matched before after r
      else c # get_substitution matched before after (d # r))"
| "get_substitution matched before after r = r"

definition js_replace :: "js_string \<Rightarrow> js_string \<Rightarrow> js_string \<Rightarrow> js_string" where
  "js_replace s pattern replacement =
     (case find_first pattern s of
        None \<Rightarrow> s
      | Some (before, after) \<Rightarrow>
          before @ get_substitution pattern before after replacement @ after)"

subsection \<open>Lower case and property lookup\<close>

text \<open>
  \<open>toLowerCase\<close> maps \<open>A\<close> to \<open>Z\<close> to \<open>a\<close> to \<open>z\<close> and the Kelvin sign
  U+212A to \<open>k\<close>, the only code unit outside ASCII whose lower case is an ASCII
  letter. The lower case of the other letters outside ASCII is not modelled (they are
  kept): it lies outside ASCII as well, and every key looked up below is ASCII.
\<close>

definition lower_unit :: "int \<Rightarrow> int" where
  "lower_unit c = (if 0x41 \<le> c \<and> c \<le> 0x5A then c + 0x20 else if c = 0x212A then 0x6B else c)"

definition toLowerCase :: "js_string \<Rightarrow> js_string" where
  "toLowerCase s = map lower_unit s"

subsection \<open>The generator\<close>

text \<open>
  The arguments \<open>language\<close> and \<open>focus\<close> are optional; \<open>args.language || ''\<close>
  makes a missing one the empty string (\<open>code\<close> is required, and \<open>args.code || ''\<close>
  leaves a text as it is). The generator returns one message of the role \<open>user\<close> whose
  content is one text block.
\<close>

datatype message = Message (role: js_string) (message_content: block)

definition append_guideline :: "(js_string \<times> js_string) list \<Rightarrow> js_string \<Rightarrow> js_string \<Rightarrow> js_string" where
  "append_guideline table key prompt =
     (if key \<noteq> [] \<and> truthy (get_property table (toLowerCase key))
      then prompt @ property_to_string (get_property table (toLowerCase key))
      else prompt)"

definition code_review_prompt :: "js_string \<Rightarrow> js_string option \<Rightarrow> js_string option \<Rightarrow> js_string" where
  "code_review_prompt code language_arg focus_arg =
     (let language = (case language_arg of None \<Rightarrow> [] | Some l \<Rightarrow> l);
          focus = (case focus_arg of None \<Rightarrow> [] | Some f \<Rightarrow> f);
          prompt = js_replace codeReviewPromptTemplate (asc ''{code}'') code
      in append_guideline focusGuidelines focus
           (append_guideline languageGuidelines language prompt))"

definition code_review :: "js_string \<Rightarrow> js_string option \<Rightarrow> js_string option \<Rightarrow> message list" where
  "code_review code language_arg focus_arg =
     [Message (asc ''user'')
        (Block (asc ''text'') (code_review_prompt code language_arg focus_arg))]"

section \<open>The server-info resource\<close>

text \<open>
  The tools the server registers, in the order of the \<open>server.registerTool\<close> calls of
  \<^verbatim>\<open>src/index.ts\<close>.
\<close>

definition registered_tools :: "js_string list" where
  "registered_tools =
     [asc ''greet'', asc ''calculator'', asc ''time'', asc ''geocode'', asc ''get-weather'',
      asc ''generate-image'']"

text \<open>
  The document the resource \<open>server://info\<close> produces on a read: the server entry
  with the uptime and the timestamp of the read, and the list of tool descriptions
  written out in the producer. The resource returns the document as JSON text.
\<close>

record tool_description =
  name :: js_string
  description :: js_string
  input :: "(js_string \<times> js_string) list"

record server_entry =
  server_name :: js_string
  version :: js_string
  uptime :: number
  timestamp :: js_string

record server_info_document =
  server :: server_entry
  tools :: "tool_description list"

definition server_info :: "number \<Rightarrow> js_string \<Rightarrow> server_info_document" where
  "server_info process_uptime now_iso =
     \<lparr>server = \<lparr>server_name = asc ''my-mcp-server'', version = asc ''1.0.0'',
                  uptime = process_uptime, timestamp = now_iso\<rparr>,
      tools =
        [\<lparr>name = asc ''greet'',
           description =
             [0xC774, 0xB984, 0xACFC, 0x20, 0xC5B8, 0xC5B4, 0xB97C, 0x20, 0xC785, 0xB825,
              0xD558, 0xBA74, 0x20, 0xC778, 0xC0AC, 0xB9D0, 0xC744, 0x20, 0xBC18, 0xD658,
              0xD569, 0xB2C8, 0xB2E4, 0x2E],
           input =
             [(asc ''name'',
               asc ''string - '' @
               [0xC778, 0xC0AC, 0xD560, 0x20, 0xC0AC, 0xB78C, 0xC758, 0x20, 0xC774, 0xB984]),
              (asc ''language'',
               asc ''enum['' @
               [0x22, 0x6B, 0x6F, 0x22, 0x2C, 0x20, 0x22, 0x65, 0x6E, 0x22] @
               asc ''] (optional, default: '' @ [0x22, 0x65, 0x6E, 0x22] @ asc '') - '' @
               [0xC778, 0xC0AC, 0x20, 0xC5B8, 0xC5B4])]\<rparr>,
         \<lparr>name = asc ''calculator'',
           description =
             [0xB450, 0x20, 0xAC1C, 0xC758, 0x20, 0xC22B, 0xC790, 0xC640, 0x20, 0xC5F0,
              0xC0B0, 0xC790, 0xB97C, 0x20, 0xC785, 0xB825, 0xBC1B, 0xC544, 0x20, 0xC0AC,
              0xCE59, 0xC5F0, 0xC0B0, 0x20, 0xACB0, 0xACFC, 0xB97C, 0x20, 0xBC18, 0xD658,
              0xD569, 0xB2C8, 0xB2E4, 0x2E],
           input =
             [(asc ''num1'',
               asc ''number - '' @ [0xCCAB, 0x20, 0xBC88, 0xC9F8, 0x20, 0xC22B, 0xC790]),
              (asc ''num2'',
               asc ''number - '' @ [0xB450, 0x20, 0xBC88, 0xC9F8, 0x20, 0xC22B, 0xC790]),
              (asc ''operator'',
               asc ''enum['' @
               [0x22, 0x2B, 0x22, 0x2C, 0x20, 0x22, 0x2D, 0x22, 0x2C, 0x20, 0x22, 0x2A,
                0x22, 0x2C, 0x20, 0x22, 0x2F, 0x22] @ asc ''] - '' @ [0xC5F0, 0xC0B0, 0xC790])]\<rparr>,
         \<lparr>name = asc ''time'',
           description =
             [0xC2DC, 0xAC04, 0xB300, 0xB97C, 0x20, 0xC785, 0xB825, 0xBC1B, 0xC544, 0x20,
              0xD574, 0xB2F9, 0x20, 0xC2DC, 0xAC04, 0xB300, 0xC758, 0x20, 0xD604, 0xC7AC,
              0x20, 0xC2DC, 0xAC01, 0xC744, 0x20, 0xBC18, 0xD658, 0xD569, 0xB2C8, 0xB2E4,
              0x2E],
           input =
             [(asc ''timezone'',
               asc ''string - '' @ [0xC2DC, 0xAC04, 0xB300, 0x20, 0x28, 0xC608] @
               asc '': UTC+9, UTC+0, UTC-5)'')]\<rparr>,
         \<lparr>name = asc ''geocode'',
           description =
             [0xB3C4, 0xC2DC, 0x20, 0xC774, 0xB984, 0xC774, 0xB098, 0x20, 0xC8FC, 0xC18C,
              0xB97C, 0x20, 0xC785, 0xB825, 0xBC1B, 0xC544, 0xC11C, 0x20, 0xC704, 0xB3C4,
              0xC640, 0x20, 0xACBD, 0xB3C4, 0x20, 0xC88C, 0xD45C, 0xB97C, 0x20, 0xBC18,
              0xD658, 0xD569, 0xB2C8, 0xB2E4, 0x2E],
           input =
             [(asc ''query'',
               asc ''string - '' @
               [0xAC80, 0xC0C9, 0xD560, 0x20, 0xB3C4, 0xC2DC, 0x20, 0xC774, 0xB984, 0xC774,
                0xB098, 0x20, 0xC8FC, 0xC18C])]\<rparr>,
         \<lparr>name = asc ''get-weather'',
           description =
             [0xC704, 0xB3C4, 0xC640, 0x20, 0xACBD, 0xB3C4, 0x20, 0xC88C, 0xD45C, 0x2C,
              0x20, 0xC608, 0xBCF4, 0x20, 0xAE30, 0xAC04, 0xC744, 0x20, 0xC785, 0xB825,
              0xBC1B, 0xC544, 0xC11C, 0x20, 0xD574, 0xB2F9, 0x20, 0xC704, 0xCE58, 0xC758,
              0x20, 0xD604, 0xC7AC, 0x20, 0xB0A0, 0xC528, 0xC640, 0x20, 0xC608, 0xBCF4, 0x20,
              0xC815, 0xBCF4, 0xB97C, 0x20, 0xC81C, 0xACF5, 0xD569, 0xB2C8, 0xB2E4, 0x2E],
           input =
             [(asc ''latitude'',
               asc ''number (-90 ~ 90) - '' @ [0xC704, 0xB3C4]),
              (asc ''longitude'',
               asc ''number (-180 ~ 180) - '' @ [0xACBD, 0xB3C4]),
              (asc ''forecastDays'',
               asc ''number (1~16, optional, default: 7) - '' @
               [0xC608, 0xBCF4, 0x20, 0xAE30, 0xAC04, 0x20, 0x28, 0xC77C, 0x20, 0xB2E8,
                0xC704, 0x29])]\<rparr>]\<rparr>"

section \<open>Schema validation before the handler\<close>

text \<open>
  Modelled from the spec: the dispatcher that validates the arguments of a request
  against the input schema of the tool and only then invokes the handler. It is the
  SDK's (\<^verbatim>\<open>McpServer.registerTool\<close> with a zod schema) and not part of
  \<^verbatim>\<open>src/index.ts\<close>; the design says that a value violating a declared string pattern
  fails with \<open>InvalidArgument\<close>, carrying the offending field, and that the handler is
  invoked with validated arguments. The schema of the time tool is the one field
  \<open>timezone\<close> with the pattern \<open>timezone_schema\<close>.
\<close>

datatype protocol_error = InvalidArgument js_string | UnknownCapability js_string

definition invoke_time :: "js_string \<Rightarrow> int \<Rightarrow> int \<Rightarrow> protocol_error + tool_result" where
  "invoke_time timezone now timezoneOffset =
     (if timezone_schema timezone then Inr (time_handler timezone now timezoneOffset)
      else Inl (InvalidArgument (asc ''timezone'')))"

section \<open>The contract of the calculator\<close>

text \<open>
  The names the contract of the calculator uses: the symbol shown for an operator, the
  JavaScript operator it stands for, the exact rational result, the numbers that are
  binary64 values, and the result with one text block and its structured mirror.
\<close>

definition operator_symbol :: "js_string \<Rightarrow> js_string" where
  "operator_symbol operator =
     (if operator = asc ''+'' then asc ''+''
      else if operator = asc ''-'' then asc ''-''
      else if operator = asc ''*'' then [0xD7]
      else [0xF7])"

definition js_arith :: "js_string \<Rightarrow> number \<Rightarrow> number \<Rightarrow> number" where
  "js_arith operator x y =
     (if operator = asc ''+'' then js_add x y
      else if operator = asc ''-'' then js_sub x y
      else if operator = asc ''*'' then js_mul x y
      else js_div x y)"

definition exact_result :: "js_string \<Rightarrow> rat \<Rightarrow> rat \<Rightarrow> rat" where
  "exact_result operator a b =
     (if operator = asc ''+'' then a + b
      else if operator = asc ''-'' then a - b
      else if operator = asc ''*'' then a * b
      else a / b)"

definition is_double :: "rat \<Rightarrow> bool" where
  "is_double r \<longleftrightarrow> round_double r = Fin r"

definition text_result :: "js_string \<Rightarrow> tool_result" where
  "text_result t =
     \<lparr>content = [Block (asc ''text'') t],
      structuredContent = \<lparr>content = [Block (asc ''text'') t]\<rparr>\<rparr>"

section \<open>The shape of a result\<close>

text \<open>
  A result is mirrored when its structured content holds the same list of blocks as
  its content and every block is a text block. An error result is the text result of
  the error prefix followed by a message.
\<close>

definition mirrored :: "tool_result \<Rightarrow> bool" where
  "mirrored r \<longleftrightarrow>
     content (structuredContent r) = content r \<and>
     list_all (\<lambda>b. block_type b = asc ''text'') (content r)"

definition error_result :: "js_string \<Rightarrow> tool_result" where
  "error_result message = text_result (error_prefix @ message)"

section \<open>Division by zero\<close>

text \<open>
  C3. For every number \<open>num1\<close>, dividing by zero (\<open>+0\<close> or \<open>-0\<close>) returns an ordinary
  result: one text block, mirrored in the structured content, whose text is the
  division-by-zero message. The handler has no throwing path, so the result is a value
  of \<open>tool_result\<close>.
\<close>

theorem calculator_division_by_zero:
  "calculator num1 (Fin 0) (asc ''/'') =
     \<lparr>content = [Block (asc ''text'') division_by_zero_text],
      structuredContent = \<lparr>content = [Block (asc ''text'') division_by_zero_text]\<rparr>\<rparr>
   \<and> calculator num1 NegZero (asc ''/'') = calculator num1 (Fin 0) (asc ''/'')
   \<and> division_by_zero_text =
       [0xC624, 0xB958, 0x3A, 0x20, 0x30, 0xC73C, 0xB85C, 0x20, 0xB098, 0xB20C, 0x20, 0xC218,
        0x20, 0xC5C6, 0xC2B5, 0xB2C8, 0xB2E4, 0x2E]"
  by (simp add: calculator_def calculator_text_def is_zero_def asc_def Let_def
      division_by_zero_text_def division_by_zero_message_def error_prefix_def)

section \<open>The time tool and the local time zone\<close>

text \<open>
  C1 (the code at the failing input). At the instant 1700000000000 ms
  (2023-11-14 22:13:20 UTC) a process whose local time is UTC answers \<open>UTC+9\<close> with
  2023-11-15 07:13:20, nine hours ahead of UTC; a process in Seoul (time zone offset
  \<open>-540\<close> minutes) answers the same request at the same instant with
  2023-11-14 22:13:20, the UTC time itself: the handler adds the local offset to a time
  value that is already UTC and then reads the UTC fields. In general the answer at an
  instant with a local offset is the answer a process in UTC gives at the instant moved
  by that offset.
\<close>

theorem time_handler_local_offset:
  "content (time_handler (asc ''UTC+9'') 1700000000000 (- 540)) =
     [Block (asc ''text'') (asc ''UTC+9'' @ current_time_infix @ asc ''2023-11-14 22:13:20'')] \<and>
   content (time_handler (asc ''UTC+9'') 1700000000000 0) =
     [Block (asc ''text'') (asc ''UTC+9'' @ current_time_infix @ asc ''2023-11-15 07:13:20'')] \<and>
   time_handler timezone now timezoneOffset =
     time_handler timezone (now + timezoneOffset * 60 * 1000) 0"
proof -
  have m: "timezone_match (asc ''UTC+9'') = Some (asc ''+'', asc ''9'')"
    by code_simp
  have p: "parse_digits (asc ''9'') = 9"
    by code_simp
  have seoul: "time_string (time_clip 1700000000000) = asc ''2023-11-14 22:13:20''"
    by code_simp
  have utc: "time_string (time_clip 1700032400000) = asc ''2023-11-15 07:13:20''"
    by code_simp
  have shift: "time_handler timezone now timezoneOffset =
      time_handler timezone (now + timezoneOffset * 60 * 1000) 0"
    by (cases "timezone_match timezone") (auto simp: time_handler_def Let_def)
  have "content (time_handler (asc ''UTC+9'') 1700000000000 (- 540)) =
      [Block (asc ''text'') (asc ''UTC+9'' @ current_time_infix @ asc ''2023-11-14 22:13:20'')]"
    by (simp add: time_handler_def m p seoul Let_def)
  moreover have "content (time_handler (asc ''UTC+9'') 1700000000000 0) =
      [Block (asc ''text'') (asc ''UTC+9'' @ current_time_infix @ asc ''2023-11-15 07:13:20'')]"
    by (simp add: time_handler_def m p utc Let_def)
  ultimately show ?thesis
    using shift by simp
qed

section \<open>The schema of the time tool guards its handler\<close>

lemma timezone_match_iff_schema: "timezone_match s \<noteq> None \<longleftrightarrow> timezone_schema s"
  by (induction s rule: timezone_schema.induct) (auto simp: asc_def)

lemma time_handler_matched:
  assumes "timezone_schema s"
  shows "content (time_handler s now tzo) \<noteq> [Block (asc ''text'') malformed_timezone_text]"
proof -
  from assms obtain g ds where m: "timezone_match s = Some (g, ds)"
    using timezone_match_iff_schema [of s] by auto
  from assms have h: "hd s = 0x55"
    by (induction s rule: timezone_schema.induct) auto
  from assms have n: "s \<noteq> []" by auto
  have e: "hd malformed_timezone_text = 0xC624"
    by (simp add: malformed_timezone_text_def error_prefix_def)
  obtain r where c: "content (time_handler s now tzo) = [Block (asc ''text'') (s @ r)]"
    by (simp add: time_handler_def m Let_def)
  have "s @ r \<noteq> malformed_timezone_text"
  proof
    assume "s @ r = malformed_timezone_text"
    then have "hd (s @ r) = hd malformed_timezone_text" by simp
    with n h e show False by simp
  qed
  with c show ?thesis by simp
qed

text \<open>
  C8. The pattern of the schema and the pattern of the handler accept the same strings.
  An input that fails the pattern (such as \<open>bogus\<close>) is answered by the dispatcher with
  \<open>InvalidArgument\<close> and never reaches the handler; an input that matches reaches the
  handler, whose match succeeds, so its malformed-timezone branch is not taken and the
  result is not the malformed-timezone message.
\<close>

theorem time_schema_gate:
  "(timezone_match s \<noteq> None \<longleftrightarrow> timezone_schema s) \<and>
   (\<not> timezone_schema s \<longrightarrow>
      invoke_time s now tzo = Inl (InvalidArgument (asc ''timezone''))) \<and>
   (timezone_schema s \<longrightarrow>
      invoke_time s now tzo = Inr (time_handler s now tzo) \<and>
      content (time_handler s now tzo) \<noteq> [Block (asc ''text'') malformed_timezone_text])"
  using timezone_match_iff_schema [of s] time_handler_matched [of s now tzo]
  by (simp add: invoke_time_def)

theorem time_schema_gate_witness:
  "\<not> timezone_schema (asc ''bogus'') \<and>
   invoke_time (asc ''bogus'') 1700000000000 0 = Inl (InvalidArgument (asc ''timezone'')) \<and>
   timezone_schema (asc ''UTC+9'') \<and>
   timezone_match (asc ''UTC+9'') = Some (asc ''+'', asc ''9'') \<and>
   invoke_time (asc ''UTC+9'') 1700000000000 0 =
     Inr (time_handler (asc ''UTC+9'') 1700000000000 0) \<and>
   content (time_handler (asc ''UTC+9'') 1700000000000 0) \<noteq>
     [Block (asc ''text'') malformed_timezone_text]"
proof -
  have b: "\<not> timezone_schema (asc ''bogus'')"
    by code_simp
  have u: "timezone_schema (asc ''UTC+9'')"
    by code_simp
  have m: "timezone_match (asc ''UTC+9'') = Some (asc ''+'', asc ''9'')"
    by code_simp
  show ?thesis
    using b u m time_schema_gate [of "asc ''bogus''" 1700000000000 0]
      time_schema_gate [of "asc ''UTC+9''" 1700000000000 0]
    by simp
qed

section \<open>The result of the calculator\<close>

lemma round_double_zero: "round_double 0 = Fin 0"
  by (simp add: round_double_def)

lemma js_arith_finite:
  assumes "operator \<in> {asc ''+'', asc ''-'', asc ''*'', asc ''/''}"
    and "operator = asc ''/'' \<longrightarrow> b \<noteq> 0"
    and "is_double a" and "is_double b"
  shows "number_to_string (js_arith operator (Fin a) (Fin b)) =
         number_to_string (round_double (exact_result operator a b))"
  using assms
  by (auto simp: js_arith_def exact_result_def js_sub_def signed_zero_def round_double_zero
      asc_def is_double_def)

text \<open>
  C2, as the code has it. For every pair of numbers and every operator of the schema,
  division by zero apart, the calculator returns one text block (and its structured
  mirror) reading \<open>num1 symbol num2 = result\<close>, where the symbol is the operator mapped
  by \<open>+ -> +\<close>, \<open>- -> -\<close>, \<open>* -> U+00D7\<close>, \<open>/ -> U+00F7\<close> and the result is the
  binary64 result of the JavaScript operator: for finite operands, the exact result
  rounded to the nearest binary64 value. All three numbers are printed as JavaScript
  prints numbers.
\<close>

theorem calculator_rounded_result:
  assumes "operator \<in> {asc ''+'', asc ''-'', asc ''*'', asc ''/''}"
    and "operator \<noteq> asc ''/'' \<or> \<not> is_zero num2"
  shows "calculator num1 num2 operator =
           text_result (number_to_string num1 @ asc '' '' @ operator_symbol operator @
             asc '' '' @ number_to_string num2 @ asc '' = '' @
             number_to_string (js_arith operator num1 num2)) \<and>
         (\<forall>a b. num1 = Fin a \<and> num2 = Fin b \<and> is_double a \<and> is_double b \<longrightarrow>
            number_to_string (js_arith operator num1 num2) =
            number_to_string (round_double (exact_result operator a b)))"
proof
  show "calculator num1 num2 operator =
          text_result (number_to_string num1 @ asc '' '' @ operator_symbol operator @
            asc '' '' @ number_to_string num2 @ asc '' = '' @
            number_to_string (js_arith operator num1 num2))"
    using assms
    by (auto simp: calculator_def calculator_text_def text_result_def operator_symbol_def
        js_arith_def asc_def Let_def)
next
  show "\<forall>a b. num1 = Fin a \<and> num2 = Fin b \<and> is_double a \<and> is_double b \<longrightarrow>
          number_to_string (js_arith operator num1 num2) =
          number_to_string (round_double (exact_result operator a b))"
  proof (intro allI impI)
    fix a b
    assume h: "num1 = Fin a \<and> num2 = Fin b \<and> is_double a \<and> is_double b"
    with assms(2) have "operator = asc ''/'' \<longrightarrow> b \<noteq> 0"
      by (auto simp: is_zero_def)
    with h assms(1) show "number_to_string (js_arith operator num1 num2) =
        number_to_string (round_double (exact_result operator a b))"
      using js_arith_finite [of operator b a] by simp
  qed
qed

theorem calculator_rounded_result_witness:
  "asc ''*'' \<in> {asc ''+'', asc ''-'', asc ''*'', asc ''/''} \<and> asc ''*'' \<noteq> asc ''/'' \<and>
   is_double 5 \<and> is_double 3 \<and>
   calculator (Fin 5) (Fin 3) (asc ''*'') = text_result (asc ''5 '' @ [0xD7] @ asc '' 3 = 15'') \<and>
   number_to_string (js_arith (asc ''*'') (Fin 5) (Fin 3)) =
     number_to_string (round_double (exact_result (asc ''*'') 5 3))"
proof -
  have o: "asc ''*'' \<in> {asc ''+'', asc ''-'', asc ''*'', asc ''/''}"
    by simp
  have n: "asc ''*'' \<noteq> asc ''/''"
    by (simp add: asc_def)
  have d: "is_double 5" "is_double 3"
    by code_simp+
  have s: "number_to_string (Fin 5) = asc ''5''" "number_to_string (Fin 3) = asc ''3''"
    "number_to_string (js_arith (asc ''*'') (Fin 5) (Fin 3)) = asc ''15''"
    "operator_symbol (asc ''*'') = [0xD7]"
    by code_simp+
  from n have z: "asc ''*'' \<noteq> asc ''/'' \<or> \<not> is_zero (Fin 3)"
    by simp
  have "calculator (Fin 5) (Fin 3) (asc ''*'') = text_result (asc ''5 '' @ [0xD7] @ asc '' 3 = 15'')"
    using calculator_rounded_result [OF o z, of "Fin 5"]
    by (simp only: s) (simp add: asc_def)
  moreover have "number_to_string (js_arith (asc ''*'') (Fin 5) (Fin 3)) =
      number_to_string (round_double (exact_result (asc ''*'') 5 3))"
    using calculator_rounded_result [OF o z, of "Fin 5"] d by simp
  ultimately show ?thesis
    using o n d by simp
qed

text \<open>
  The claim as stated asks for the exact result. \<open>2^53 + 1\<close> is not a binary64 value:
  the calculator answers \<open>9007199254740992 + 1\<close> with \<open>9007199254740992\<close>, not with
  the exact sum \<open>9007199254740993\<close>.
\<close>

theorem calculator_exact_counterexample:
  "calculator (Fin 9007199254740992) (Fin 1) (asc ''+'') =
     text_result (asc ''9007199254740992 + 1 = 9007199254740992'') \<and>
   calculator (Fin 9007199254740992) (Fin 1) (asc ''+'') \<noteq>
     text_result (asc ''9007199254740992 + 1 = 9007199254740993'')"
proof -
  have t: "calculator_text (Fin 9007199254740992) (Fin 1) (asc ''+'') =
      asc ''9007199254740992 + 1 = 9007199254740992''"
    by code_simp
  show ?thesis
    by (simp add: calculator_def t text_result_def Let_def) (simp add: asc_def)
qed

section \<open>Weather codes are rendered totally\<close>

subsection \<open>Digit strings and the text of a number\<close>

lemma digits_value_snoc: "digits_value (ds @ [d]) = 10 * digits_value ds + (d - 0x30)"
  by (simp add: digits_value_def)

lemma show_nat_digits:
  "0 \<le> s \<Longrightarrow> list_all is_digit (show_nat s) \<and> show_nat s \<noteq> [] \<and> digits_value (show_nat s) = s"
proof (induction s rule: show_nat.induct)
  case (1 n)
  show ?case
  proof (cases "n < 10")
    case True
    with 1(2) show ?thesis
      by (simp add: show_nat.simps [of n] is_digit_def digits_value_def)
  next
    case False
    then have "0 \<le> n div 10" by simp
    with 1(1) False have ih: "list_all is_digit (show_nat (n div 10))"
      "digits_value (show_nat (n div 10)) = n div 10"
      by simp_all
    have d: "is_digit (48 + n mod 10)"
      by (simp add: is_digit_def)
    from False have s: "show_nat n = show_nat (n div 10) @ [48 + n mod 10]"
      by (simp add: show_nat.simps [of n])
    show ?thesis
      using ih d by (simp add: s digits_value_snoc)
  qed
qed

lemma digits_value_replicate:
  "digits_value (ds @ replicate j 48) = digits_value ds * 10 ^ j"
proof (induction j)
  case 0
  then show ?case by simp
next
  case (Suc j)
  have "ds @ replicate (Suc j) 48 = (ds @ replicate j 48) @ [48]"
    by (simp add: replicate_append_same)
  then show ?case
    using Suc by (simp only: digits_value_snoc) simp
qed

lemma layout_all_digits:
  assumes "list_all is_digit (layout n k ds)"
  shows "k \<le> n \<and> layout n k ds = ds @ zeros (n - k)"
  using assms
  by (auto simp: layout_def asc_def exponent_part_def is_digit_def split: if_splits)

lemma layout_contains: "set ds \<subseteq> set (layout n k ds)"
proof -
  have "set (take m ds) \<union> set (drop m ds) = set ds" for m
    by (metis append_take_drop_id set_append)
  then show ?thesis
    by (auto simp: layout_def)
qed

lemma closest_mem: "closest x k cs b \<in> set (b # cs)"
  by (induction cs arbitrary: b) auto

lemma digit_candidates_sound:
  "c \<in> set (digit_candidates x n0 k) \<Longrightarrow> is_digits_of x k (fst c) (snd c)"
  by (auto simp: digit_candidates_def candidates_at_def split: if_splits)

lemma shortest_digits_cases:
  "shortest_digits x n0 ks = (n, k, s) \<Longrightarrow>
     is_digits_of x k n s \<or> (n, k, s) = (n0, 17, \<lfloor>x / pow10 (n0 - 17)\<rfloor>)"
proof (induction ks)
  case Nil
  then show ?case by auto
next
  case (Cons a ks)
  show ?case
  proof (cases "digit_candidates x n0 a")
    case Nil
    with Cons show ?thesis by simp
  next
    case (Cons c cs)
    have "closest x a cs c \<in> set (digit_candidates x n0 a)"
      using closest_mem [of x a cs c] Cons by simp
    then have "is_digits_of x a (fst (closest x a cs c)) (snd (closest x a cs c))"
      by (rule digit_candidates_sound)
    moreover from Cons Cons.prems
    have "n = fst (closest x a cs c)" "k = a" "s = snd (closest x a cs c)"
      by auto
    ultimately show ?thesis by simp
  qed
qed


lemma decimal_length_bounds:
  "0 < p \<Longrightarrow>
     1 \<le> decimal_length p \<and> 10 ^ nat (decimal_length p - 1) \<le> p \<and> p < 10 ^ nat (decimal_length p)"
proof (induction p rule: decimal_length.induct)
  case (1 n)
  show ?case
  proof (cases "n div 10 \<le> 0")
    case True
    with 1(2) have "n < 10" by simp
    moreover have "decimal_length (n div 10) = 0"
      using True by (simp add: decimal_length.simps [of "n div 10"])
    ultimately show ?thesis
      using 1(2) by (simp add: decimal_length.simps [of n])
  next
    case False
    then have pos: "0 < n div 10" by simp
    with 1 have ih: "1 \<le> decimal_length (n div 10)"
      "10 ^ nat (decimal_length (n div 10) - 1) \<le> n div 10"
      "n div 10 < 10 ^ nat (decimal_length (n div 10))"
      by simp_all
    have dl: "decimal_length n = 1 + decimal_length (n div 10)"
      using 1(2) by (simp add: decimal_length.simps [of n])
    define j where "j = nat (decimal_length (n div 10) - 1)"
    have j: "nat (decimal_length (n div 10) - 1) = j" "nat (decimal_length (n div 10)) = Suc j"
      "nat (decimal_length n - 1) = Suc j" "nat (decimal_length n) = Suc (Suc j)"
      using ih(1) dl by (simp_all add: j_def)
    from ih have lo: "10 ^ j \<le> n div 10" and hi: "n div 10 < 10 ^ Suc j"
      by (simp_all only: j)
    have "10 ^ Suc j \<le> n" using lo by auto
    moreover have "n < 10 ^ Suc (Suc j)" using hi by auto
    moreover have "1 \<le> decimal_length n" using dl ih(1) by simp
    ultimately show ?thesis
      by (simp only: j)
  qed
qed


lemma pow10_power_int: "pow10 e = power_int 10 e"
  by (simp add: pow10_def power_int_def power_one_over)

lemma pow10_pos: "0 < pow10 e"
  by (simp add: pow10_power_int)

lemma pow10_mono: "a \<le> b \<Longrightarrow> pow10 a \<le> pow10 b"
  by (simp add: pow10_power_int power_int_increasing)

lemma pow10_diff: "pow10 (a - b) = pow10 a / pow10 b"
  by (simp add: pow10_power_int power_int_diff)

lemma pow10_nonneg: "0 \<le> e \<Longrightarrow> pow10 e = of_int (10 ^ nat e)"
  by (simp add: pow10_def)

lemma floor_log10_lower:
  assumes "0 < x"
  shows "pow10 (floor_log10 x) \<le> x"
proof -
  obtain p q where pq: "quotient_of x = (p, q)"
    by (cases "quotient_of x")
  then have q: "0 < q" and x: "x = of_int p / of_int q"
    using quotient_of_denom_pos quotient_of_div by blast+
  with assms have p: "0 < p"
    by (simp add: zero_less_divide_iff)
  define d where "d = decimal_length p - decimal_length q"
  have fl: "floor_log10 x = (if pow10 d \<le> x then d else d - 1)"
    by (simp add: floor_log10_def nearest_log_def pq d_def)
  show ?thesis
  proof (cases "pow10 d \<le> x")
    case True
    with fl show ?thesis by simp
  next
    case False
    have bp: "10 ^ nat (decimal_length p - 1) \<le> p" "1 \<le> decimal_length p"
      using decimal_length_bounds [OF p] by simp_all
    have bq: "q < 10 ^ nat (decimal_length q)" "1 \<le> decimal_length q"
      using decimal_length_bounds [OF q] by simp_all
    have lp: "pow10 (decimal_length p - 1) \<le> of_int p"
      using bp by (simp add: pow10_nonneg)
    have lq: "of_int q \<le> pow10 (decimal_length q)"
      using bq by (simp add: pow10_nonneg)
    have "pow10 (d - 1) = pow10 (decimal_length p - 1) / pow10 (decimal_length q)"
      using pow10_diff [of "decimal_length p - 1" "decimal_length q"]
      by (simp add: d_def algebra_simps)
    also have "\<dots> \<le> of_int p / of_int q"
      using lp lq q pow10_pos [of "decimal_length q"] pow10_pos [of "decimal_length p - 1"]
      by (intro frac_le) simp_all
    finally show ?thesis
      using fl False x by simp
  qed
qed


lemma layout_digits_value:
  assumes "0 \<le> s" and "list_all is_digit (layout n k (show_nat s))"
  shows "k \<le> n \<and> digits_value (layout n k (show_nat s)) = s * 10 ^ nat (n - k)"
  using layout_all_digits [OF assms(2)] show_nat_digits [OF assms(1)]
  by (simp add: zeros_def digits_value_replicate)

lemma positive_to_string_layout:
  "\<exists>n k s. positive_to_string x = layout n k (show_nat s) \<and>
     (is_digits_of x k n s \<or>
      (n = floor_log10 x + 1 \<and> k = 17 \<and> s = \<lfloor>x / pow10 (floor_log10 x + 1 - 17)\<rfloor>))"
proof -
  obtain n k s where sd: "shortest_digits x (floor_log10 x + 1)
      [1, 2, 3, 4, 5, 6, 7, 8, 9, 10, 11, 12, 13, 14, 15, 16, 17] = (n, k, s)"
    by (metis prod_cases3)
  have "positive_to_string x = layout n k (show_nat s)"
    by (simp only: positive_to_string_def layout_digits_def sd fst_conv snd_conv)
  with shortest_digits_cases [OF sd] show ?thesis
    by auto
qed

lemma fallback_large:
  assumes "0 < x" and "17 \<le> floor_log10 x + 1"
  shows "10 ^ 16 \<le> \<lfloor>x / pow10 (floor_log10 x + 1 - 17)\<rfloor>"
proof -
  have "pow10 16 = pow10 (floor_log10 x) / pow10 (floor_log10 x + 1 - 17)"
    using pow10_diff [of "floor_log10 x" "floor_log10 x + 1 - 17"] by simp
  also have "\<dots> \<le> x / pow10 (floor_log10 x + 1 - 17)"
    using floor_log10_lower [OF assms(1)] pow10_pos [of "floor_log10 x + 1 - 17"]
    by (simp add: divide_right_mono)
  finally have "of_int (10 ^ 16) \<le> x / pow10 (floor_log10 x + 1 - 17)"
    by (simp add: pow10_def)
  then show ?thesis
    by (simp only: le_floor_iff)
qed

lemma positive_digits:
  assumes "0 < x" and "list_all is_digit (positive_to_string x)"
  shows "round_double (of_int (digits_value (positive_to_string x))) = Fin x \<or>
         10 ^ 16 \<le> digits_value (positive_to_string x)"
proof -
  obtain n k s where l: "positive_to_string x = layout n k (show_nat s)"
    and c: "is_digits_of x k n s \<or>
      (n = floor_log10 x + 1 \<and> k = 17 \<and> s = \<lfloor>x / pow10 (floor_log10 x + 1 - 17)\<rfloor>)"
    using positive_to_string_layout [of x] by blast
  from c show ?thesis
  proof
    assume d: "is_digits_of x k n s"
    then have "1 \<le> s"
      by (simp add: is_digits_of_def) (metis one_le_numeral one_le_power order_trans)
    then have s: "0 \<le> s" by simp
    from layout_digits_value [OF s] assms(2) l
    have kn: "k \<le> n" and v: "digits_value (positive_to_string x) = s * 10 ^ nat (n - k)"
      by simp_all
    from d have "round_double (of_int s * pow10 (n - k)) = Fin x"
      by (simp add: is_digits_of_def)
    with kn v show ?thesis
      by (simp add: pow10_nonneg)
  next
    assume f: "n = floor_log10 x + 1 \<and> k = 17 \<and> s = \<lfloor>x / pow10 (floor_log10 x + 1 - 17)\<rfloor>"
    have "0 \<le> x / pow10 (floor_log10 x + 1 - 17)"
      using assms(1) pow10_pos [of "floor_log10 x + 1 - 17"] by simp
    with f have s: "0 \<le> s" by simp
    from layout_digits_value [OF s] assms(2) l
    have kn: "k \<le> n" and v: "digits_value (positive_to_string x) = s * 10 ^ nat (n - k)"
      by simp_all
    from kn f have "17 \<le> floor_log10 x + 1" by simp
    from fallback_large [OF assms(1) this] f have "10 ^ 16 \<le> s" by simp
    moreover have "s * 1 \<le> s * 10 ^ nat (n - k)"
      using s by (intro mult_left_mono) simp_all
    ultimately have "10 ^ 16 \<le> s * 10 ^ nat (n - k)"
      by linarith
    then show ?thesis
      by (simp only: v) simp
  qed
qed

lemma positive_has_digit:
  assumes "0 < x"
  shows "list_ex is_digit (positive_to_string x)"
proof -
  obtain n k s where l: "positive_to_string x = layout n k (show_nat s)"
    and c: "is_digits_of x k n s \<or>
      (n = floor_log10 x + 1 \<and> k = 17 \<and> s = \<lfloor>x / pow10 (floor_log10 x + 1 - 17)\<rfloor>)"
    using positive_to_string_layout [of x] by blast
  have "0 \<le> s"
    using c
  proof
    assume "is_digits_of x k n s"
    then have "1 \<le> s"
      by (simp add: is_digits_of_def) (metis one_le_numeral one_le_power order_trans)
    then show ?thesis by simp
  next
    assume f: "n = floor_log10 x + 1 \<and> k = 17 \<and> s = \<lfloor>x / pow10 (floor_log10 x + 1 - 17)\<rfloor>"
    have "0 \<le> x / pow10 (floor_log10 x + 1 - 17)"
      using assms pow10_pos [of "floor_log10 x + 1 - 17"] by simp
    with f show ?thesis by simp
  qed
  from show_nat_digits [OF this] obtain c where "c \<in> set (show_nat s)" "is_digit c"
    by (cases "show_nat s") auto
  with layout_contains [of "show_nat s" n k] l show ?thesis
    by (auto simp: list_ex_iff)
qed

lemma number_has_digit: "list_ex is_digit (number_to_string (Fin x))"
proof -
  consider "x = 0" | "x < 0" | "0 < x" by linarith
  then show ?thesis
  proof cases
    case 1
    then show ?thesis by (simp add: asc_def is_digit_def)
  next
    case 2
    then show ?thesis using positive_has_digit [of "- x"] by simp
  next
    case 3
    then show ?thesis using positive_has_digit [of x] by simp
  qed
qed

lemma number_key:
  assumes "list_all is_digit (number_to_string (Fin x))"
    and "digits_value (number_to_string (Fin x)) < 10 ^ 16"
  shows "x = 0 \<or> round_double (of_int (digits_value (number_to_string (Fin x)))) = Fin x"
proof -
  consider "x = 0" | "x < 0" | "0 < x" by linarith
  then show ?thesis
  proof cases
    case 1
    then show ?thesis by simp
  next
    case 2
    with assms(1) show ?thesis by (simp add: asc_def is_digit_def)
  next
    case 3
    with assms positive_digits [of x] show ?thesis by auto
  qed
qed


lemma weather_keys:
  "list_all (\<lambda>key. list_all is_digit key \<and> digits_value key < 10 ^ 16 \<and>
      round_double (of_int (digits_value key)) = Fin (of_int (digits_value key)))
     (map fst weatherCodes)"
  by code_simp

lemma weather_key_values:
  "map digits_value (map fst weatherCodes) =
     [0, 1, 2, 3, 45, 48, 51, 53, 55, 56, 57, 61, 63, 65, 66, 67, 71, 73, 75, 77, 80, 81, 82,
      85, 86, 95, 96, 99]"
  by code_simp

lemma prototype_names_without_digit:
  "list_all (\<lambda>key. \<not> list_ex is_digit key) object_prototype_names"
  by code_simp

lemma weather_table_rows:
  "map (\<lambda>code. (show_int code, getWeatherDescription (Fin (of_int code))))
     [0, 1, 2, 3, 45, 48, 51, 53, 55, 56, 57, 61, 63, 65, 66, 67, 71, 73, 75, 77, 80, 81, 82,
      85, 86, 95, 96, 99] = weatherCodes"
  by code_simp

lemma weather_lookup_misses:
  assumes "code \<notin> {0, 1, 2, 3, 45, 48, 51, 53, 55, 56, 57, 61, 63, 65, 66, 67, 71, 73, 75,
      77, 80, 81, 82, 85, 86, 95, 96, 99}"
  shows "get_property weatherCodes (number_to_string (Fin (of_int code))) = Missing"
proof -
  define key where "key = number_to_string (Fin (of_int code))"
  have "map_of weatherCodes key = None"
  proof (rule ccontr)
    assume "map_of weatherCodes key \<noteq> None"
    then have m: "key \<in> set (map fst weatherCodes)"
      by (metis map_of_eq_None_iff set_map)
    have "\<forall>k \<in> set (map fst weatherCodes). list_all is_digit k \<and> digits_value k < 10 ^ 16 \<and>
        round_double (of_int (digits_value k)) = Fin (of_int (digits_value k))"
      using weather_keys by (simp only: list_all_iff)
    with m have k: "list_all is_digit key" "digits_value key < 10 ^ 16"
      "round_double (of_int (digits_value key)) = Fin (of_int (digits_value key))"
      by blast+
    from m have "digits_value key \<in> set (map digits_value (map fst weatherCodes))"
      by (metis image_eqI set_map)
    then have v: "digits_value key \<in> {0, 1, 2, 3, 45, 48, 51, 53, 55, 56, 57, 61, 63, 65, 66, 67,
        71, 73, 75, 77, 80, 81, 82, 85, 86, 95, 96, 99}"
      by (simp only: weather_key_values) simp
    from number_key [of "of_int code"] k(1) k(2)
    have "(of_int code :: rat) = 0 \<or>
        round_double (of_int (digits_value key)) = Fin (of_int code)"
      by (simp only: key_def)
    with k(3) have "(of_int code :: rat) = 0 \<or> (of_int (digits_value key) :: rat) = of_int code"
      by auto
    then have "code = 0 \<or> digits_value key = code"
      by (simp only: of_int_eq_iff of_int_eq_0_iff)
    with v assms show False
      by auto
  qed
  moreover have "key \<notin> set object_prototype_names"
  proof
    assume k: "key \<in> set object_prototype_names"
    have "\<forall>k \<in> set object_prototype_names. \<not> list_ex is_digit k"
      using prototype_names_without_digit by (simp only: list_all_iff)
    with k have "\<not> list_ex is_digit key"
      by blast
    with number_has_digit [of "of_int code"] show False
      by (simp only: key_def simp_thms)
  qed
  ultimately have "get_property weatherCodes key = Missing"
    by (simp add: get_property_def)
  then show ?thesis
    by (simp only: key_def)
qed

text \<open>
  C4. \<open>getWeatherDescription\<close> is a total function, and on the integers it does what the
  table says: for each of the 28 codes of the table the key is the decimal numeral of
  the code and the result is the description of that key, and for every other integer
  code the result is the fallback text followed by the code as JavaScript prints it
  (\<open>4\<close>, \<open>-1\<close>, and \<open>1e+21\<close> for \<open>10^21\<close>). No other number prints as a key of
  the table, and no number prints as a name inherited from \<open>Object.prototype\<close>.
\<close>

theorem getWeatherDescription_total:
  "map (\<lambda>code. (show_int code, getWeatherDescription (Fin (of_int code))))
     [0, 1, 2, 3, 45, 48, 51, 53, 55, 56, 57, 61, 63, 65, 66, 67, 71, 73, 75, 77, 80, 81, 82,
      85, 86, 95, 96, 99] = weatherCodes \<and>
   (\<forall>code. code \<notin> {0, 1, 2, 3, 45, 48, 51, 53, 55, 56, 57, 61, 63, 65, 66, 67, 71, 73, 75,
        77, 80, 81, 82, 85, 86, 95, 96, 99} \<longrightarrow>
      getWeatherDescription (Fin (of_int code)) =
        weather_code_prefix @ number_to_string (Fin (of_int code)))"
proof
  show "map (\<lambda>code. (show_int code, getWeatherDescription (Fin (of_int code))))
     [0, 1, 2, 3, 45, 48, 51, 53, 55, 56, 57, 61, 63, 65, 66, 67, 71, 73, 75, 77, 80, 81, 82,
      85, 86, 95, 96, 99] = weatherCodes"
    by (rule weather_table_rows)
next
  show "\<forall>code. code \<notin> {0, 1, 2, 3, 45, 48, 51, 53, 55, 56, 57, 61, 63, 65, 66, 67, 71, 73, 75,
        77, 80, 81, 82, 85, 86, 95, 96, 99} \<longrightarrow>
      getWeatherDescription (Fin (of_int code)) =
        weather_code_prefix @ number_to_string (Fin (of_int code))"
  proof (intro allI impI)
    fix code :: int
    assume "code \<notin> {0, 1, 2, 3, 45, 48, 51, 53, 55, 56, 57, 61, 63, 65, 66, 67, 71, 73, 75,
        77, 80, 81, 82, 85, 86, 95, 96, 99}"
    from weather_lookup_misses [OF this]
    show "getWeatherDescription (Fin (of_int code)) =
        weather_code_prefix @ number_to_string (Fin (of_int code))"
      by (simp only: getWeatherDescription_def truthy.simps if_False)
  qed
qed

theorem getWeatherDescription_total_witness:
  "getWeatherDescription (Fin 4) = weather_code_prefix @ asc ''4'' \<and>
   getWeatherDescription (Fin 100) = weather_code_prefix @ asc ''100'' \<and>
   getWeatherDescription (Fin (- 1)) = weather_code_prefix @ asc ''-1'' \<and>
   getWeatherDescription (Fin 1000000000000000000000) = weather_code_prefix @ asc ''1e+21'' \<and>
   getWeatherDescription (Fin 0) = [0xB9D1, 0xC74C] \<and>
   getWeatherDescription (Fin 99) =
     [0xAC15, 0xD55C, 0x20, 0xC6B0, 0xBC15, 0xC744, 0x20, 0xB3D9, 0xBC18, 0xD55C, 0x20, 0xB1CC,
      0xC6B0]"
proof -
  have s: "number_to_string (Fin 4) = asc ''4''" "number_to_string (Fin 100) = asc ''100''"
    "number_to_string (Fin (- 1)) = asc ''-1''"
    "number_to_string (Fin 1000000000000000000000) = asc ''1e+21''"
    by code_simp+
  note t = getWeatherDescription_total
  from t have rows: "map (\<lambda>code. (show_int code, getWeatherDescription (Fin (of_int code))))
     [0, 1, 2, 3, 45, 48, 51, 53, 55, 56, 57, 61, 63, 65, 66, 67, 71, 73, 75, 77, 80, 81, 82,
      85, 86, 95, 96, 99] = weatherCodes"
    by blast
  from t have other: "code \<notin> {0, 1, 2, 3, 45, 48, 51, 53, 55, 56, 57, 61, 63, 65, 66, 67, 71, 73,
        75, 77, 80, 81, 82, 85, 86, 95, 96, 99} \<Longrightarrow>
      getWeatherDescription (Fin (of_int code)) =
        weather_code_prefix @ number_to_string (Fin (of_int code))" for code
    by blast
  have "getWeatherDescription (Fin 0) = [0xB9D1, 0xC74C]"
    "getWeatherDescription (Fin 99) =
     [0xAC15, 0xD55C, 0x20, 0xC6B0, 0xBC15, 0xC744, 0x20, 0xB3D9, 0xBC18, 0xD55C, 0x20, 0xB1CC,
      0xC6B0]"
    using rows by (simp_all add: weatherCodes_def)
  moreover have "getWeatherDescription (Fin 4) = weather_code_prefix @ number_to_string (Fin 4)"
    using other [of 4] by simp
  moreover have "getWeatherDescription (Fin 100) =
      weather_code_prefix @ number_to_string (Fin 100)"
    using other [of 100] by simp
  moreover have "getWeatherDescription (Fin (- 1)) =
      weather_code_prefix @ number_to_string (Fin (- 1))"
    using other [of "- 1"] by simp
  moreover have "getWeatherDescription (Fin 1000000000000000000000) =
      weather_code_prefix @ number_to_string (Fin 1000000000000000000000)"
    using other [of 1000000000000000000000] by simp
  ultimately show ?thesis
    by (simp only: s)
qed

section \<open>The code-review prompt on special inputs\<close>

text \<open>
  C5 (the code at the failing inputs). The shell line \<open>echo $$\<close> given as the code
  reaches the prompt as \<open>echo $\<close>, and \<open>a$&b\<close> as \<open>a{code}b\<close>: the code is
  used as a replacement template, not substituted as it is. The language
  \<open>constructor\<close>, which is none of the five recognised languages, still appends
  text to the prompt, the inherited property \<open>constructor\<close> of the table printed as
  a function; so does the focus \<open>__PROTO__\<close>. A recognised language and focus in
  mixed case append their two blocks, and the language \<open>rust\<close> appends nothing.
\<close>

theorem code_review_special_inputs:
  "code_review_prompt (asc ''echo $$'') None None =
     template_head @ asc ''echo $'' @ template_tail \<and>
   code_review_prompt (asc ''a$&b'') None None =
     template_head @ asc ''a{code}b'' @ template_tail \<and>
   code_review_prompt (asc ''x'') (Some (asc ''constructor'')) None =
     template_head @ asc ''x'' @ template_tail @ asc ''function Object() { [native code] }'' \<and>
   code_review_prompt (asc ''x'') None (Some (asc ''__PROTO__'')) =
     template_head @ asc ''x'' @ template_tail @ asc ''[object Object]'' \<and>
   code_review_prompt (asc ''x'') (Some (asc ''Python'')) (Some (asc ''Security'')) =
     template_head @ asc ''x'' @ template_tail @
     the (map_of languageGuidelines (asc ''python'')) @
     the (map_of focusGuidelines (asc ''security'')) \<and>
   code_review_prompt (asc ''x'') (Some (asc ''rust'')) None =
     template_head @ asc ''x'' @ template_tail"
proof -
  have "code_review_prompt (asc ''echo $$'') None None =
      template_head @ asc ''echo $'' @ template_tail"
    by code_simp
  moreover have "code_review_prompt (asc ''a$&b'') None None =
      template_head @ asc ''a{code}b'' @ template_tail"
    by code_simp
  moreover have "code_review_prompt (asc ''x'') (Some (asc ''constructor'')) None =
      template_head @ asc ''x'' @ template_tail @ asc ''function Object() { [native code] }''"
    by code_simp
  moreover have "code_review_prompt (asc ''x'') None (Some (asc ''__PROTO__'')) =
      template_head @ asc ''x'' @ template_tail @ asc ''[object Object]''"
    by code_simp
  moreover have "code_review_prompt (asc ''x'') (Some (asc ''Python'')) (Some (asc ''Security'')) =
      template_head @ asc ''x'' @ template_tail @
      the (map_of languageGuidelines (asc ''python'')) @
      the (map_of focusGuidelines (asc ''security''))"
    by code_simp
  moreover have "code_review_prompt (asc ''x'') (Some (asc ''rust'')) None =
      template_head @ asc ''x'' @ template_tail"
    by code_simp
  ultimately show ?thesis
    by blast
qed

section \<open>The tools listed by server-info\<close>

text \<open>
  C7 (the code on a read). Whatever the uptime and the timestamp, the document lists
  five tools; \<open>generate-image\<close>, which the server registers, is not among them.
\<close>

theorem server_info_tools:
  "map name (tools (server_info process_uptime now_iso)) =
     [asc ''greet'', asc ''calculator'', asc ''time'', asc ''geocode'', asc ''get-weather''] \<and>
   asc ''generate-image'' \<in> set registered_tools \<and>
   asc ''generate-image'' \<notin> set (map name (tools (server_info process_uptime now_iso)))"
  by (simp add: server_info_def registered_tools_def asc_def)

section \<open>Every result is mirrored\<close>

lemma mirrored_text_result: "mirrored (text_result t)"
  by (simp add: mirrored_def text_result_def)

lemma greet_text_result: "\<exists>t. greet who language = text_result t"
  by (simp add: greet_def text_result_def Let_def)

lemma calculator_text_result:
  "calculator num1 num2 operator = text_result (calculator_text num1 num2 operator)"
  by (simp add: calculator_def text_result_def Let_def)

lemma time_handler_text_result: "\<exists>t. time_handler timezone now tzo = text_result t"
  by (auto simp: time_handler_def text_result_def Let_def split: option.splits)

lemma geocode_text_result: "\<exists>t. geocode query fetch = text_result t"
  by (auto simp: geocode_def geocode_try_def text_result_def Let_def
      split: sum.splits fetched.splits geocode_body.splits list.splits if_splits)

lemma get_weather_text_result:
  "\<exists>t. get_weather latitude longitude forecastDays local_date fetch = text_result t"
  by (auto simp: get_weather_def get_weather_try_def text_result_def Let_def
      split: sum.splits fetched.splits option.splits if_splits)

lemma generate_image_text_result: "\<exists>t. generate_image prompt token outcome = text_result t"
  by (auto simp: generate_image_def generate_image_try_def text_result_def Let_def
      split: sum.splits if_splits)

text \<open>
  C9. For each of the six tools and every input (and every outcome of its outbound
  call), error texts included, the structured content of the result holds the same list
  of text blocks as its content.
\<close>

theorem tool_results_mirrored:
  "mirrored (greet who language) \<and>
   mirrored (calculator num1 num2 operator) \<and>
   mirrored (time_handler timezone now timezoneOffset) \<and>
   mirrored (geocode query geocode_fetch) \<and>
   mirrored (get_weather latitude longitude forecastDays local_date weather_fetch) \<and>
   mirrored (generate_image prompt token outcome)"
  using greet_text_result [of who language] calculator_text_result [of num1 num2 operator]
    time_handler_text_result [of timezone now timezoneOffset]
    geocode_text_result [of query geocode_fetch]
    get_weather_text_result [of latitude longitude forecastDays local_date weather_fetch]
    generate_image_text_result [of prompt token outcome]
  by (auto simp: mirrored_text_result)

section \<open>The geocode tool falls back on the query\<close>

text \<open>
  C10. When the request goes out (the query encodes), the endpoint answers
  successfully with a non-empty array and the first place has no \<open>display_name\<close>, the
  result text shows the query itself as the location, followed by the latitude and the
  longitude parsed from the place.
\<close>

theorem geocode_query_as_name:
  assumes "well_formed_utf16 query" and "ok response"
    and "json response = Inr (Places (result # others))"
    and "display_name result = None"
  shows "geocode query (Responded response) =
           text_result ([0xC704, 0xCE58, 0x3A, 0x20] @ query @
             [0xA, 0xC704, 0xB3C4, 0x3A, 0x20] @ number_to_string (parse_coordinate (lat result)) @
             [0xA, 0xACBD, 0xB3C4, 0x3A, 0x20] @ number_to_string (parse_coordinate (lon result)))"
  using assms
  by (simp add: geocode_def geocode_try_def place_text_def text_result_def Let_def)

theorem geocode_query_as_name_witness:
  "well_formed_utf16 (asc ''Seoul'') \<and>
   geocode (asc ''Seoul'')
     (Responded \<lparr>ok = True, status = 200, statusText = asc ''OK'',
        json = Inr (Places [\<lparr>lat = Some (asc ''37.5''), lon = Some (asc ''127''),
                               display_name = None\<rparr>])\<rparr>) =
     text_result ([0xC704, 0xCE58, 0x3A, 0x20] @ asc ''Seoul'' @
       [0xA, 0xC704, 0xB3C4, 0x3A, 0x20] @ asc ''37.5'' @
       [0xA, 0xACBD, 0xB3C4, 0x3A, 0x20] @ asc ''127'')"
proof -
  have w: "well_formed_utf16 (asc ''Seoul'')"
    by code_simp
  have a: "number_to_string (parse_coordinate (Some (asc ''37.5''))) = asc ''37.5''"
    by code_simp
  have b: "number_to_string (parse_coordinate (Some (asc ''127''))) = asc ''127''"
    by code_simp
  show ?thesis
    using w a b
      geocode_query_as_name [of "asc ''Seoul''"
        "\<lparr>ok = True, status = 200, statusText = asc ''OK'',
          json = Inr (Places [\<lparr>lat = Some (asc ''37.5''), lon = Some (asc ''127''),
                                 display_name = None\<rparr>])\<rparr>"
        "\<lparr>lat = Some (asc ''37.5''), lon = Some (asc ''127''), display_name = None\<rparr>" "[]"]
    by simp
qed

section \<open>Domain errors are answered as text\<close>

lemma not_found_no_prefix: "\<not> starts_with error_prefix (not_found_text query)"
  by (simp add: starts_with_def error_prefix_def not_found_text_def)

text \<open>
  C6, as the code has it. Division by zero, a malformed timezone, an upstream HTTP
  failure (of the geocoding and of the forecast endpoint) and a missing image-generation
  credential are answered with an ordinary result whose one text block is the error
  prefix followed by a message. An empty geocoding result (an empty array, or an answer
  that is not an array) is answered with an ordinary result as well, but its text is the
  not-found text for the query, which does not start with the error prefix. Each handler
  is a total function into results: no case throws.
\<close>

theorem domain_errors_as_text:
  "(is_zero num2 \<longrightarrow>
      calculator num1 num2 (asc ''/'') = error_result division_by_zero_message) \<and>
   (timezone_match timezone = None \<longrightarrow>
      time_handler timezone now timezoneOffset = error_result malformed_timezone_message) \<and>
   (well_formed_utf16 query \<and> \<not> ok geocode_response \<longrightarrow>
      geocode query (Responded geocode_response) =
        error_result (api_request_failed @ show_int (status geocode_response) @ asc '' '' @
          statusText geocode_response)) \<and>
   (\<not> ok weather_response \<longrightarrow>
      get_weather latitude longitude forecastDays local_date (Responded weather_response) =
        error_result (api_request_failed @ show_int (status weather_response) @ asc '' '' @
          statusText weather_response)) \<and>
   (token = None \<or> token = Some [] \<longrightarrow>
      generate_image prompt token outcome = error_result missing_token_text) \<and>
   (well_formed_utf16 query \<and> ok geocode_response \<and>
    (json geocode_response = Inr (Places []) \<or> json geocode_response = Inr NotAnArray) \<longrightarrow>
      geocode query (Responded geocode_response) = text_result (not_found_text query) \<and>
      \<not> starts_with error_prefix (not_found_text query))"
proof (intro conjI impI)
  assume "is_zero num2"
  then show "calculator num1 num2 (asc ''/'') = error_result division_by_zero_message"
    by (simp add: calculator_def calculator_text_def division_by_zero_text_def error_result_def
        text_result_def asc_def Let_def)
next
  assume "timezone_match timezone = None"
  then show "time_handler timezone now timezoneOffset = error_result malformed_timezone_message"
    by (simp add: time_handler_def malformed_timezone_text_def error_result_def text_result_def)
next
  assume "well_formed_utf16 query \<and> \<not> ok geocode_response"
  then show "geocode query (Responded geocode_response) =
      error_result (api_request_failed @ show_int (status geocode_response) @ asc '' '' @
        statusText geocode_response)"
    by (simp add: geocode_def geocode_try_def error_result_def text_result_def Let_def)
next
  assume "\<not> ok weather_response"
  then show "get_weather latitude longitude forecastDays local_date (Responded weather_response) =
      error_result (api_request_failed @ show_int (status weather_response) @ asc '' '' @
        statusText weather_response)"
    by (simp add: get_weather_def get_weather_try_def error_result_def text_result_def Let_def)
next
  assume "token = None \<or> token = Some []"
  then show "generate_image prompt token outcome = error_result missing_token_text"
    by (auto simp: generate_image_def generate_image_try_def error_result_def text_result_def
        Let_def)
next
  assume "well_formed_utf16 query \<and> ok geocode_response \<and>
    (json geocode_response = Inr (Places []) \<or> json geocode_response = Inr NotAnArray)"
  then show "geocode query (Responded geocode_response) = text_result (not_found_text query)"
    by (auto simp: geocode_def geocode_try_def text_result_def)
next
  show "\<not> starts_with error_prefix (not_found_text query)"
    by (rule not_found_no_prefix)
qed

theorem domain_errors_as_text_witness:
  "is_zero (Fin 0) \<and>
   calculator (Fin 5) (Fin 0) (asc ''/'') = error_result division_by_zero_message \<and>
   timezone_match (asc ''bogus'') = None \<and>
   time_handler (asc ''bogus'') 1700000000000 0 = error_result malformed_timezone_message \<and>
   well_formed_utf16 (asc ''Seoul'') \<and>
   geocode (asc ''Seoul'')
     (Responded \<lparr>ok = False, status = 503, statusText = asc ''Service Unavailable'',
        json = Inr NotAnArray\<rparr>) =
     error_result (api_request_failed @ asc ''503 Service Unavailable'') \<and>
   get_weather (Fin 37) (Fin 127) 7 (\<lambda>s. None)
     (Responded \<lparr>ok = False, status = 500, statusText = asc ''Internal Server Error'',
        json = Inr None\<rparr>) =
     error_result (api_request_failed @ asc ''500 Internal Server Error'') \<and>
   generate_image (asc ''a cat'') None (Inr []) = error_result missing_token_text \<and>
   geocode (asc ''Seoul'')
     (Responded \<lparr>ok = True, status = 200, statusText = asc ''OK'', json = Inr (Places [])\<rparr>) =
     text_result (not_found_text (asc ''Seoul''))"
proof -
  have z: "is_zero (Fin 0)"
    by (simp add: is_zero_def)
  have m: "timezone_match (asc ''bogus'') = None"
    by code_simp
  have w: "well_formed_utf16 (asc ''Seoul'')"
    by code_simp
  have s: "show_int 503 = asc ''503''" "show_int 500 = asc ''500''"
    by code_simp+
  note t = domain_errors_as_text [where ?num2.0 = "Fin 0" and ?num1.0 = "Fin 5"
      and timezone = "asc ''bogus''" and now = 1700000000000 and timezoneOffset = 0
      and query = "asc ''Seoul''" and latitude = "Fin 37" and longitude = "Fin 127"
      and forecastDays = 7 and local_date = "\<lambda>s. None"
      and weather_response = "\<lparr>ok = False, status = 500,
        statusText = asc ''Internal Server Error'', json = Inr None\<rparr>"
      and token = None and prompt = "asc ''a cat''" and outcome = "Inr []"]
  have "geocode (asc ''Seoul'')
     (Responded \<lparr>ok = False, status = 503, statusText = asc ''Service Unavailable'',
        json = Inr NotAnArray\<rparr>) =
     error_result (api_request_failed @ asc ''503 Service Unavailable'')"
    using w s t [where geocode_response = "\<lparr>ok = False, status = 503,
        statusText = asc ''Service Unavailable'', json = Inr NotAnArray\<rparr>"]
    by (simp add: asc_def)
  moreover have "geocode (asc ''Seoul'')
     (Responded \<lparr>ok = True, status = 200, statusText = asc ''OK'', json = Inr (Places [])\<rparr>) =
     text_result (not_found_text (asc ''Seoul''))"
    using w t [where geocode_response = "\<lparr>ok = True, status = 200,
        statusText = asc ''OK'', json = Inr (Places [])\<rparr>"]
    by simp
  moreover have "get_weather (Fin 37) (Fin 127) 7 (\<lambda>s. None)
     (Responded \<lparr>ok = False, status = 500, statusText = asc ''Internal Server Error'',
        json = Inr None\<rparr>) =
     error_result (api_request_failed @ asc ''500 Internal Server Error'')"
    using s t [where geocode_response = "\<lparr>ok = True, status = 200,
        statusText = asc ''OK'', json = Inr (Places [])\<rparr>"]
    by (simp add: asc_def)
  moreover have "calculator (Fin 5) (Fin 0) (asc ''/'') = error_result division_by_zero_message"
    "time_handler (asc ''bogus'') 1700000000000 0 = error_result malformed_timezone_message"
    "generate_image (asc ''a cat'') None (Inr []) = error_result missing_token_text"
    using z m t [where geocode_response = "\<lparr>ok = True, status = 200,
        statusText = asc ''OK'', json = Inr (Places [])\<rparr>"]
    by simp_all
  ultimately show ?thesis
    using z m w by simp
qed

text \<open>
  The claim as stated counts the empty geocoding result among the errors answered with
  the error prefix; for the query \<open>Atlantis\<close> and an empty array the result is the
  not-found text, which is no error result.
\<close>

theorem empty_geocoding_counterexample:
  "geocode (asc ''Atlantis'')
     (Responded \<lparr>ok = True, status = 200, statusText = asc ''OK'', json = Inr (Places [])\<rparr>) =
     text_result (not_found_text (asc ''Atlantis'')) \<and>
   \<not> starts_with error_prefix (not_found_text (asc ''Atlantis'')) \<and>
   (\<forall>message. geocode (asc ''Atlantis'')
     (Responded \<lparr>ok = True, status = 200, statusText = asc ''OK'', json = Inr (Places [])\<rparr>) \<noteq>
     error_result message)"
proof -
  have w: "well_formed_utf16 (asc ''Atlantis'')"
    by code_simp
  have g: "geocode (asc ''Atlantis'')
     (Responded \<lparr>ok = True, status = 200, statusText = asc ''OK'', json = Inr (Places [])\<rparr>) =
     text_result (not_found_text (asc ''Atlantis''))"
    using w by (simp add: geocode_def geocode_try_def text_result_def)
  have n: "\<not> starts_with error_prefix (not_found_text (asc ''Atlantis''))"
    by (rule not_found_no_prefix)
  have "text_result (not_found_text (asc ''Atlantis'')) \<noteq> error_result message" for message
  proof
    assume "text_result (not_found_text (asc ''Atlantis'')) = error_result message"
    then have "not_found_text (asc ''Atlantis'') = error_prefix @ message"
      by (simp add: text_result_def error_result_def)
    with n show False
      by (simp add: starts_with_def)
  qed
  with g n show ?thesis
    by simp
qed

end
